theory Spec2Isabelle
  imports Main
begin

section \<open>donut-utils: a shallow embedding of main.go\<close>

text \<open>
  The program is one Go file: \<^verbatim>\<open>main\<close> (lines 23-169), \<^verbatim>\<open>downloadAndStore\<close>
  (lines 170-206) and \<^verbatim>\<open>addToPath\<close> (lines 208-246). Go strings are byte
  sequences, so a string is a \<^typ>\<open>string\<close> (a list of 8-bit characters). Everything
  the program asks of its surroundings (the file system, the network, the user database,
  standard input, the environment) is a field of the record \<open>env\<close>; everything it changes
  is a field of the record \<open>state\<close>, passed through every call.
\<close>

subsection \<open>Package strings\<close>

text \<open>\<^verbatim>\<open>strings.HasPrefix(s, prefix)\<close>.\<close>

definition HasPrefix :: "string \<Rightarrow> string \<Rightarrow> bool" where
  "HasPrefix s pre = (take (length pre) s = pre)"

text \<open>\<^verbatim>\<open>strings.HasSuffix(s, suffix)\<close>.\<close>

definition HasSuffix :: "string \<Rightarrow> string \<Rightarrow> bool" where
  "HasSuffix s suf = (length suf \<le> length s \<and> drop (length s - length suf) s = suf)"

text \<open>
  \<^verbatim>\<open>strings.Index(s, substr)\<close>: the byte offset of the first occurrence of
  \<open>substr\<close> in \<open>s\<close>, or \<open>-1\<close> when there is none. Go's \<^verbatim>\<open>int\<close> is kept as \<^typ>\<open>int\<close>
  because the program compares the result with \<open>-1\<close>.
\<close>

fun Index :: "string \<Rightarrow> string \<Rightarrow> int" where
  "Index [] substr = (if substr = [] then 0 else - 1)"
| "Index (c # s) substr =
     (if HasPrefix (c # s) substr then 0
      else (let i = Index s substr in if i = - 1 then - 1 else i + 1))"

text \<open>\<^verbatim>\<open>strings.Contains(s, substr)\<close> is \<^verbatim>\<open>Index(s, substr) >= 0\<close>.\<close>

definition Contains :: "string \<Rightarrow> string \<Rightarrow> bool" where
  "Contains s substr = (0 \<le> Index s substr)"

text \<open>
  \<^verbatim>\<open>strings.Split(s, "\n")\<close>: the pieces of \<open>s\<close> between line feeds; \<open>n\<close> line
  feeds give \<open>n + 1\<close> pieces, empty ones included. The program splits on this one
  separator only (line 55), \<^verbatim>\<open>filepath.Clean\<close> below on the slash.
\<close>

fun SplitOn :: "char \<Rightarrow> string \<Rightarrow> string list" where
  "SplitOn sep [] = [[]]"
| "SplitOn sep (c # s) =
     (if c = sep then [] # SplitOn sep s
      else (case SplitOn sep s of [] \<Rightarrow> [[c]] | p # ps \<Rightarrow> (c # p) # ps))"

text \<open>
  \<^verbatim>\<open>unicode.IsSpace\<close>, on the UTF-8 encoding: the six ASCII white-space bytes, then
  U+0085, U+00A0, U+1680, U+2000..U+200A, U+2028, U+2029, U+202F, U+205F and U+3000.
  No encoding in the list is a prefix or a suffix of another one.
\<close>

definition whiteSpace :: "string list" where
  "whiteSpace =
    [[CHR 0x09], [CHR 0x0A], [CHR 0x0B], [CHR 0x0C], [CHR 0x0D], [CHR 0x20],
     [CHR 0xC2, CHR 0x85], [CHR 0xC2, CHR 0xA0],
     [CHR 0xE1, CHR 0x9A, CHR 0x80],
     [CHR 0xE2, CHR 0x80, CHR 0x80], [CHR 0xE2, CHR 0x80, CHR 0x81],
     [CHR 0xE2, CHR 0x80, CHR 0x82], [CHR 0xE2, CHR 0x80, CHR 0x83],
     [CHR 0xE2, CHR 0x80, CHR 0x84], [CHR 0xE2, CHR 0x80, CHR 0x85],
     [CHR 0xE2, CHR 0x80, CHR 0x86], [CHR 0xE2, CHR 0x80, CHR 0x87],
     [CHR 0xE2, CHR 0x80, CHR 0x88], [CHR 0xE2, CHR 0x80, CHR 0x89],
     [CHR 0xE2, CHR 0x80, CHR 0x8A],
     [CHR 0xE2, CHR 0x80, CHR 0xA8], [CHR 0xE2, CHR 0x80, CHR 0xA9],
     [CHR 0xE2, CHR 0x80, CHR 0xAF], [CHR 0xE2, CHR 0x81, CHR 0x9F],
     [CHR 0xE3, CHR 0x80, CHR 0x80]]"

text \<open>
  The width in bytes of the white-space rune \<open>s\<close> starts with (ends with), and \<open>0\<close>
  when its first (last) rune is not white space.
\<close>

definition leadingSpace :: "string \<Rightarrow> nat" where
  "leadingSpace s = (case find (HasPrefix s) whiteSpace of None \<Rightarrow> 0 | Some w \<Rightarrow> length w)"

definition trailingSpace :: "string \<Rightarrow> nat" where
  "trailingSpace s = (case find (HasSuffix s) whiteSpace of None \<Rightarrow> 0 | Some w \<Rightarrow> length w)"

text \<open>
  \<^verbatim>\<open>strings.TrimSpace(s)\<close> is \<^verbatim>\<open>TrimRightFunc(TrimLeftFunc(s, unicode.IsSpace),
  unicode.IsSpace)\<close>: white-space runes are taken off the front, then off the back, until
  the first (last) rune is not one. The recursion is on the number of bytes still to be
  looked at, which is at most the length of the string.
\<close>

fun TrimLeftN :: "nat \<Rightarrow> string \<Rightarrow> string" where
  "TrimLeftN 0 s = s"
| "TrimLeftN (Suc n) s =
     (if leadingSpace s = 0 then s else TrimLeftN n (drop (leadingSpace s) s))"

fun TrimRightN :: "nat \<Rightarrow> string \<Rightarrow> string" where
  "TrimRightN 0 s = s"
| "TrimRightN (Suc n) s =
     (if trailingSpace s = 0 then s
      else TrimRightN n (take (length s - trailingSpace s) s))"

definition TrimSpace :: "string \<Rightarrow> string" where
  "TrimSpace s = (let l = TrimLeftN (length s) s in TrimRightN (length l) l)"

text \<open>
  \<^verbatim>\<open>strings.ToLower(s)\<close>. A string of ASCII bytes only has its letters \<open>A..Z\<close>
  moved to \<open>a..z\<close>. A string with a byte from \<open>0x80\<close> up goes through
  \<^verbatim>\<open>strings.Map(unicode.ToLower, s)\<close>, whose case tables belong to the Go
  distribution: that function is the parameter \<open>mapLower\<close>.
\<close>

definition isASCII :: "string \<Rightarrow> bool" where
  "isASCII s = list_all (\<lambda>c. (of_char c :: nat) < 0x80) s"

definition lowerByte :: "char \<Rightarrow> char" where
  "lowerByte c =
     (if 0x41 \<le> (of_char c :: nat) \<and> (of_char c :: nat) \<le> 0x5A
      then char_of ((of_char c :: nat) + 0x20) else c)"

definition ToLower :: "(string \<Rightarrow> string) \<Rightarrow> string \<Rightarrow> string" where
  "ToLower mapLower s = (if isASCII s then map lowerByte s else mapLower s)"

subsection \<open>Package path/filepath, for slash-separated paths\<close>

text \<open>
  The functions of the package as they are on every system but Windows, where Go also
  takes the backslash for a separator and knows volume names; that variant is not
  modelled.

  \<^verbatim>\<open>filepath.Base(path)\<close>: the last element of the path, after trailing slashes
  are removed; \<open>"."\<close> for the empty path and \<open>"/"\<close> for a path of slashes only.
\<close>

definition Base :: "string \<Rightarrow> string" where
  "Base path =
     (if path = [] then ''.''
      else (let p = rev (dropWhile (\<lambda>c. c = CHR ''/'') (rev path));
                e = rev (takeWhile (\<lambda>c. c \<noteq> CHR ''/'') (rev p))
            in if e = [] then ''/'' else e))"

text \<open>
  \<^verbatim>\<open>filepath.Clean(path)\<close>, element by element: empty elements and \<open>"."\<close> are
  dropped; \<open>".."\<close> removes the element before it, is dropped at the root, and is kept
  at the front of a relative path. \<open>out\<close> is the stack of elements kept, last first.
\<close>

fun cleanElems :: "bool \<Rightarrow> string list \<Rightarrow> string list \<Rightarrow> string list" where
  "cleanElems rooted [] out = rev out"
| "cleanElems rooted (e # es) out =
     (if e = [] \<or> e = ''.'' then cleanElems rooted es out
      else if e = ''..'' then
        (case out of
           [] \<Rightarrow> if rooted then cleanElems rooted es [] else cleanElems rooted es [e]
         | x # xs \<Rightarrow> if x = ''..'' then cleanElems rooted es (e # out)
                     else cleanElems rooted es xs)
      else cleanElems rooted es (e # out))"

fun joinWith :: "string \<Rightarrow> string list \<Rightarrow> string" where
  "joinWith sep [] = []"
| "joinWith sep [e] = e"
| "joinWith sep (e # es) = e @ sep @ joinWith sep es"

definition Clean :: "string \<Rightarrow> string" where
  "Clean path =
     (if path = [] then ''.''
      else (let rooted = (hd path = CHR ''/'');
                p = (if rooted then ''/'' else []) @
                    joinWith ''/'' (cleanElems rooted (SplitOn (CHR ''/'') path) [])
            in if p = [] then ''.'' else p))"

text \<open>
  \<^verbatim>\<open>filepath.Join(elem...)\<close>: the elements from the first non-empty one on, joined
  with slashes and cleaned; the empty string when every element is empty.
\<close>

definition Join :: "string list \<Rightarrow> string" where
  "Join elem =
     (case dropWhile (\<lambda>e. e = []) elem of [] \<Rightarrow> [] | e # es \<Rightarrow> Clean (joinWith ''/'' (e # es)))"

subsection \<open>What the program reads and what it changes\<close>

text \<open>An error value is the text of \<^verbatim>\<open>err.Error()\<close>.\<close>

type_synonym err = string

text \<open>
  An HTTP response as \<^verbatim>\<open>http.Get\<close> returns it: the status code, the bytes its
  body delivers and, when reading the body fails after them, the error.
\<close>

record response =
  StatusCode :: int
  Body :: string
  BodyErr :: "err option"

text \<open>One element of \<^verbatim>\<open>release.Assets\<close> (lines 114-119).\<close>

record asset =
  AssetName :: string
  BrowserDownloadUrl :: string

text \<open>\<^verbatim>\<open>appInfo\<close> (lines 57-61).\<close>

record appInfo =
  Name :: string
  Description :: string
  DownloadURL :: string

text \<open>
  The surroundings of one run. \<open>Current\<close> is the home directory that
  \<^verbatim>\<open>user.Current()\<close> returns, or its error: package os/user looks the user up at the
  first call and answers every later call of the process from that result, so the calls
  at lines 42 and 222 read the same field. \<open>UnmarshalRepoInfo\<close> and \<open>UnmarshalRelease\<close>
  are \<^verbatim>\<open>json.Unmarshal\<close> into the two anonymous structs (lines 87-90 and 114-121).
  \<open>MkdirAll\<close>, \<open>Create\<close>, \<open>Copy\<close>, \<open>Chmod\<close>, \<open>OpenFile\<close> and \<open>WriteString\<close> give
  the error of the system call on a path, if it fails there.
\<close>

record env =
  GOOS :: string
  GOARCH :: string
  ReadFile :: "string \<Rightarrow> err + string"
  Current :: "err + string"
  MkdirAll :: "string \<Rightarrow> err option"
  Get :: "string \<Rightarrow> err + response"
  UnmarshalRepoInfo :: "string \<Rightarrow> err + string"
  UnmarshalRelease :: "string \<Rightarrow> err + asset list"
  Stdin :: string
  SHELL :: string
  Create :: "string \<Rightarrow> err option"
  Copy :: "string \<Rightarrow> err option"
  Chmod :: "string \<Rightarrow> err option"
  OpenFile :: "string \<Rightarrow> err option"
  WriteString :: "string \<Rightarrow> err option"
  MapLower :: "string \<Rightarrow> string"

text \<open>
  The lines the program prints, one constructor for each print statement:
  \<^item> \<open>Banner\<close> (line 24), \<open>Intro\<close> (line 34);
  \<^item> \<open>FailedReadReposList\<close> (38), \<open>FailedGetCurrentUser\<close> (44 and 224),
    \<open>FailedCreateDownloadDir\<close> (51), \<open>FailedReadInput\<close> (148);
  \<^item> \<open>FailedGetRepoInfo\<close> (74), \<open>Non200RepoInfo\<close> (78), \<open>FailedReadRepoInfoBody\<close> (84),
    \<open>FailedUnmarshalRepoInfo\<close> (92), \<open>FailedGetLatestRelease\<close> (99), \<open>Non200Release\<close>
    (103), \<open>FailedReadReleaseBody\<close> (110), \<open>FailedUnmarshalRelease\<close> (123);
  \<^item> \<open>AvailableHeader\<close> (139), \<open>AppLine\<close> with the 1-based index, the name and the
    description (141), \<open>DownloadPrompt\<close> (143);
  \<^item> \<open>WindowsManual\<close> (159), \<open>PathLine\<close> with the directory (160 and 218),
    \<open>WindowsRestart\<close> (161), \<open>RestartNotice\<close> (164), \<open>SourceHint\<close> (165),
    \<open>SourceBash\<close> (166), \<open>SourceZsh\<close> (167);
  \<^item> \<open>FailedDownload\<close> (173), \<open>InvalidFilename\<close> (181), \<open>FailedCreateFile\<close> (188),
    \<open>FailedWriteFile\<close> (195), \<open>FailedChmod\<close> (201), \<open>FileSaved\<close> (205);
  \<^item> \<open>UnsupportedShell\<close> (217), \<open>FailedOpenShellrc\<close> (231), \<open>FailedWriteShellrc\<close>
    (239), \<open>AddedToPath\<close> (243), \<open>UpdateSession\<close> (244), \<open>SourceCmd\<close> (245).
\<close>

datatype msg =
    Banner | Intro
  | FailedReadReposList err | FailedGetCurrentUser err | FailedCreateDownloadDir err
  | FailedReadInput err
  | FailedGetRepoInfo err | Non200RepoInfo int | FailedReadRepoInfoBody err
  | FailedUnmarshalRepoInfo err
  | FailedGetLatestRelease err | Non200Release int | FailedReadReleaseBody err
  | FailedUnmarshalRelease err
  | AvailableHeader | AppLine nat string string | DownloadPrompt
  | WindowsManual | PathLine string | WindowsRestart
  | RestartNotice | SourceHint | SourceBash | SourceZsh
  | FailedDownload err | InvalidFilename string | FailedCreateFile err
  | FailedWriteFile err | FailedChmod err | FileSaved string
  | UnsupportedShell | FailedOpenShellrc err | FailedWriteShellrc err
  | AddedToPath string | UpdateSession | SourceCmd string

text \<open>
  A resource that is open until it is closed: the body of the response to the \<open>n\<close>-th
  request of the run (counted from \<open>0\<close>), or a handle on the file at a path.
\<close>

datatype resource = RespBody nat | FileHandle string

record fileinfo =
  content :: string
  perm :: nat

text \<open>
  The state of a run: the lines printed so far, the files and the directories the
  program has made or found, the URLs requested so far, and the resources now open.
\<close>

record state =
  stdout :: "msg list"
  files :: "string \<rightharpoonup> fileinfo"
  dirs :: "string set"
  requests :: "string list"
  live :: "resource list"

definition println :: "msg \<Rightarrow> state \<Rightarrow> state" where
  "println m st = st\<lparr>stdout := stdout st @ [m]\<rparr>"

text \<open>
  \<^verbatim>\<open>http.Get(url)\<close>: the request is sent; a transport error gives no response,
  anything else gives a response whose body is open.
\<close>

definition http_Get :: "env \<Rightarrow> string \<Rightarrow> state \<Rightarrow> (err + response \<times> resource) \<times> state" where
  "http_Get env url st =
     (let body = RespBody (length (requests st));
          st1 = st\<lparr>requests := requests st @ [url]\<rparr>
      in case Get env url of
           Inl e \<Rightarrow> (Inl e, st1)
         | Inr resp \<Rightarrow> (Inr (resp, body), st1\<lparr>live := live st1 @ [body]\<rparr>))"

text \<open>\<^verbatim>\<open>io.ReadAll(resp.Body)\<close>.\<close>

definition ReadAll :: "response \<Rightarrow> err + string" where
  "ReadAll resp = (case BodyErr resp of Some e \<Rightarrow> Inl e | None \<Rightarrow> Inr (Body resp))"

text \<open>
  \<open>Close\<close> on a resource, and the deferred calls of a function, run when it returns,
  the last deferred first (the list holds the last deferred call at its head).
\<close>

definition Close :: "resource \<Rightarrow> state \<Rightarrow> state" where
  "Close r st = st\<lparr>live := remove1 r (live st)\<rparr>"

definition run_deferred :: "resource list \<Rightarrow> state \<Rightarrow> state" where
  "run_deferred deferred st = fold Close deferred st"

text \<open>\<^verbatim>\<open>os.MkdirAll(path, 0755)\<close>.\<close>

definition os_MkdirAll :: "env \<Rightarrow> string \<Rightarrow> state \<Rightarrow> err option \<times> state" where
  "os_MkdirAll env path st =
     (case MkdirAll env path of
        Some e \<Rightarrow> (Some e, st)
      | None \<Rightarrow> (None, st\<lparr>dirs := insert path (dirs st)\<rparr>))"

text \<open>
  \<^verbatim>\<open>os.Create(path)\<close>: the file is created with mode 0666, which is 438 (the umask is
  not modelled), or, when it exists, emptied with its mode kept. A directory cannot be opened
  for writing.
\<close>

definition os_Create :: "env \<Rightarrow> string \<Rightarrow> state \<Rightarrow> (err + resource) \<times> state" where
  "os_Create env path st =
     (if path \<in> dirs st then (Inl ''is a directory'', st)
      else case Create env path of
        Some e \<Rightarrow> (Inl e, st)
      | None \<Rightarrow>
          (Inr (FileHandle path),
           st\<lparr>files := (files st)(path \<mapsto>
                  \<lparr>content = [], perm = (case files st path of None \<Rightarrow> 438 | Some f \<Rightarrow> perm f)\<rparr>),
              live := live st @ [FileHandle path]\<rparr>))"

text \<open>
  \<^verbatim>\<open>io.Copy(out, resp.Body)\<close> into the file just created: the bytes the body
  delivers are written; the error is the write's, or else the body's read error.
\<close>

definition io_Copy :: "env \<Rightarrow> string \<Rightarrow> response \<Rightarrow> state \<Rightarrow> err option \<times> state" where
  "io_Copy env path resp st =
     (case Copy env path of
        Some e \<Rightarrow> (Some e, st)
      | None \<Rightarrow>
          (BodyErr resp,
           st\<lparr>files := (files st)(path \<mapsto>
                  \<lparr>content = Body resp,
                   perm = (case files st path of None \<Rightarrow> 438 | Some f \<Rightarrow> perm f)\<rparr>)\<rparr>))"

text \<open>\<^verbatim>\<open>os.Chmod(path, mode)\<close>.\<close>

definition os_Chmod :: "env \<Rightarrow> string \<Rightarrow> nat \<Rightarrow> state \<Rightarrow> err option \<times> state" where
  "os_Chmod env path mode st =
     (case Chmod env path of
        Some e \<Rightarrow> (Some e, st)
      | None \<Rightarrow>
          (case files st path of
             None \<Rightarrow> (Some ''no such file or directory'', st)
           | Some f \<Rightarrow> (None, st\<lparr>files := (files st)(path \<mapsto> f\<lparr>perm := mode\<rparr>)\<rparr>)))"

text \<open>
  \<^verbatim>\<open>os.OpenFile(path, os.O_APPEND|os.O_WRONLY, 0644)\<close>: without
  \<^verbatim>\<open>os.O_CREATE\<close> a file that does not exist is not made, and the call fails.
\<close>

definition os_OpenFile :: "env \<Rightarrow> string \<Rightarrow> state \<Rightarrow> (err + resource) \<times> state" where
  "os_OpenFile env path st =
     (case files st path of
        None \<Rightarrow> (Inl ''no such file or directory'', st)
      | Some f \<Rightarrow>
          (case OpenFile env path of
             Some e \<Rightarrow> (Inl e, st)
           | None \<Rightarrow> (Inr (FileHandle path), st\<lparr>live := live st @ [FileHandle path]\<rparr>)))"

text \<open>\<^verbatim>\<open>file.WriteString(s)\<close> on a file opened for appending.\<close>

definition file_WriteString :: "env \<Rightarrow> string \<Rightarrow> string \<Rightarrow> state \<Rightarrow> err option \<times> state" where
  "file_WriteString env path s st =
     (case WriteString env path of
        Some e \<Rightarrow> (Some e, st)
      | None \<Rightarrow>
          (case files st path of
             None \<Rightarrow> (Some ''no such file or directory'', st)
           | Some f \<Rightarrow> (None, st\<lparr>files := (files st)(path \<mapsto> f\<lparr>content := content f @ s\<rparr>)\<rparr>)))"

text \<open>
  \<^verbatim>\<open>reader.ReadString('\n')\<close> on standard input: the bytes up to and with the
  first line feed; when the input ends before a line feed, the error \<^verbatim>\<open>io.EOF\<close>.
\<close>

definition ReadString :: "string \<Rightarrow> err + string" where
  "ReadString input =
     (if CHR 0x0A \<in> set input
      then Inr (takeWhile (\<lambda>c. c \<noteq> CHR 0x0A) input @ [CHR 0x0A])
      else Inl ''EOF'')"

subsection \<open>The constants (lines 17-21)\<close>

definition BaseURL :: string where
  "BaseURL = ''https://api.github.com/repos/''"

definition ReposList :: string where
  "ReposList = ''repolist.txt''"

definition DownloadDir :: string where
  "DownloadDir = ''.donut-utils''"

subsection \<open>downloadAndStore (lines 170-206)\<close>

text \<open>
  The body of the function returns the state together with the calls it has deferred;
  the function runs them at its return. The mode 0755 is 493.
\<close>

definition downloadAndStore_body ::
  "env \<Rightarrow> string \<Rightarrow> string \<Rightarrow> state \<Rightarrow> resource list \<times> state" where
  "downloadAndStore_body env url downloadPath st =
     (case http_Get env url st of
        (Inl e, st1) \<Rightarrow> ([], println (FailedDownload e) st1)
      | (Inr (resp, body), st1) \<Rightarrow>
          (let filename = Base url; index = Index filename ''-v'' in
           if index = - 1 then ([body], println (InvalidFilename filename) st1)
           else
             (let appName = take (nat index) filename;
                  target = Join [downloadPath, appName]
              in case os_Create env target st1 of
                   (Inl e, st2) \<Rightarrow> ([body], println (FailedCreateFile e) st2)
                 | (Inr out, st2) \<Rightarrow>
                     (case io_Copy env target resp st2 of
                        (Some e, st3) \<Rightarrow> ([out, body], println (FailedWriteFile e) st3)
                      | (None, st3) \<Rightarrow>
                          (case os_Chmod env target 493 st3 of
                             (Some e, st4) \<Rightarrow> ([out, body], println (FailedChmod e) st4)
                           | (None, st4) \<Rightarrow> ([out, body], println (FileSaved target) st4))))))"

definition downloadAndStore :: "env \<Rightarrow> string \<Rightarrow> string \<Rightarrow> state \<Rightarrow> state" where
  "downloadAndStore env url downloadPath st =
     (case downloadAndStore_body env url downloadPath st of
        (deferred, st') \<Rightarrow> run_deferred deferred st')"

subsection \<open>addToPath (lines 208-246)\<close>

text \<open>The line written at line 237: a line feed, then the export command.\<close>

definition exportLine :: "string \<Rightarrow> string" where
  "exportLine dir = CHR 0x0A # ''export PATH=$PATH:'' @ dir"

definition addToPath_body :: "env \<Rightarrow> string \<Rightarrow> state \<Rightarrow> resource list \<times> state" where
  "addToPath_body env dir st =
     (let shell = SHELL env in
      case (if Contains shell ''bash'' then Some ''.bashrc''
            else if Contains shell ''zsh'' then Some ''.zshrc''
            else None) of
        None \<Rightarrow> ([], println (PathLine dir) (println UnsupportedShell st))
      | Some shellrc \<Rightarrow>
          (case Current env of
             Inl e \<Rightarrow> ([], println (FailedGetCurrentUser e) st)
           | Inr home \<Rightarrow>
               (let shellrcPath = Join [home, shellrc] in
                case os_OpenFile env shellrcPath st of
                  (Inl e, st1) \<Rightarrow> ([], println (FailedOpenShellrc e) st1)
                | (Inr handle, st1) \<Rightarrow>
                    (case file_WriteString env shellrcPath (exportLine dir) st1 of
                       (Some e, st2) \<Rightarrow> ([handle], println (FailedWriteShellrc e) st2)
                     | (None, st2) \<Rightarrow>
                         ([handle],
                          println (SourceCmd shellrc)
                            (println UpdateSession (println (AddedToPath shellrc) st2)))))))"

definition addToPath :: "env \<Rightarrow> string \<Rightarrow> state \<Rightarrow> state" where
  "addToPath env dir st =
     (case addToPath_body env dir st of (deferred, st') \<Rightarrow> run_deferred deferred st')"

subsection \<open>main (lines 23-169)\<close>

text \<open>
  The loop over the assets of a release (lines 127-136): the first asset whose name
  contains both \<^verbatim>\<open>runtime.GOOS\<close> and \<^verbatim>\<open>runtime.GOARCH\<close> is appended to
  \<^verbatim>\<open>availableApps\<close>, and \<^verbatim>\<open>break\<close> leaves the loop.
\<close>

fun scanAssets :: "string \<Rightarrow> string \<Rightarrow> string \<Rightarrow> asset list \<Rightarrow> appInfo list \<Rightarrow> appInfo list" where
  "scanAssets os arch description [] availableApps = availableApps"
| "scanAssets os arch description (a # assets) availableApps =
     (if Contains (AssetName a) os \<and> Contains (AssetName a) arch
      then availableApps @
             [\<lparr>Name = AssetName a, Description = description,
               DownloadURL = BrowserDownloadUrl a\<rparr>]
      else scanAssets os arch description assets availableApps)"

text \<open>
  One pass of the loop over the lines of the list (lines 64-137). It works on
  \<^verbatim>\<open>availableApps\<close>, on the calls \<^verbatim>\<open>main\<close> has deferred so far (a
  \<^verbatim>\<open>defer\<close> in the loop is a deferred call of \<^verbatim>\<open>main\<close>) and on the state.
  Every \<^verbatim>\<open>continue\<close> is a branch that returns the three.
\<close>

definition fetch_repo ::
  "env \<Rightarrow> string \<Rightarrow> appInfo list \<times> resource list \<times> state \<Rightarrow> appInfo list \<times> resource list \<times> state" where
  "fetch_repo env line acc =
     (case acc of (availableApps, deferred, st) \<Rightarrow>
      (let repo = TrimSpace line in
       if repo = [] then (availableApps, deferred, st)
       else
         (case http_Get env (BaseURL @ repo) st of
            (Inl e, st1) \<Rightarrow> (availableApps, deferred, println (FailedGetRepoInfo e) st1)
          | (Inr (resp, body), st1) \<Rightarrow>
              if StatusCode resp \<noteq> 200
              then (availableApps, deferred, println (Non200RepoInfo (StatusCode resp)) st1)
              else
                (case ReadAll resp of
                   Inl e \<Rightarrow>
                     (availableApps, body # deferred, println (FailedReadRepoInfoBody e) st1)
                 | Inr bytes \<Rightarrow>
                 (case UnmarshalRepoInfo env bytes of
                   Inl e \<Rightarrow>
                     (availableApps, body # deferred, println (FailedUnmarshalRepoInfo e) st1)
                 | Inr description \<Rightarrow>
                 (case http_Get env (BaseURL @ repo @ ''/releases/latest'') st1 of
                   (Inl e, st2) \<Rightarrow>
                     (availableApps, body # deferred, println (FailedGetLatestRelease e) st2)
                 | (Inr (resp2, body2), st2) \<Rightarrow>
                     if StatusCode resp2 \<noteq> 200
                     then (availableApps, body # deferred,
                           println (Non200Release (StatusCode resp2)) st2)
                     else
                       (case ReadAll resp2 of
                          Inl e \<Rightarrow>
                            (availableApps, body2 # body # deferred,
                             println (FailedReadReleaseBody e) st2)
                        | Inr bytes2 \<Rightarrow>
                        (case UnmarshalRelease env bytes2 of
                          Inl e \<Rightarrow>
                            (availableApps, body2 # body # deferred,
                             println (FailedUnmarshalRelease e) st2)
                        | Inr assets \<Rightarrow>
                            (scanAssets (GOOS env) (GOARCH env) description assets availableApps,
                             body2 # body # deferred, st2)))))))))"

text \<open>The whole loop (lines 64-137).\<close>

definition fetch_loop ::
  "env \<Rightarrow> string list \<Rightarrow> appInfo list \<times> resource list \<times> state \<Rightarrow> appInfo list \<times> resource list \<times> state" where
  "fetch_loop env repos acc = fold (fetch_repo env) repos acc"

text \<open>The list of applications (lines 140-142), numbered from \<open>1\<close>.\<close>

definition listApps :: "appInfo list \<Rightarrow> state \<Rightarrow> state" where
  "listApps availableApps st =
     fold (\<lambda>(i, app). println (AppLine (i + 1) (Name app) (Description app)))
       (enumerate 0 availableApps) st"

text \<open>The download loop behind the answer (lines 152-157).\<close>

definition downloadPhase :: "env \<Rightarrow> string \<Rightarrow> appInfo list \<Rightarrow> string \<Rightarrow> state \<Rightarrow> state" where
  "downloadPhase env downloadPath availableApps answer st =
     (let response = ToLower (MapLower env) (TrimSpace answer) in
      if response = ''yes''
      then fold (\<lambda>app. downloadAndStore env (DownloadURL app) downloadPath) availableApps st
      else st)"

text \<open>The last step (lines 158-168).\<close>

definition pathStep :: "env \<Rightarrow> string \<Rightarrow> state \<Rightarrow> state" where
  "pathStep env downloadPath st =
     (if GOOS env = ''windows''
      then println WindowsRestart (println (PathLine downloadPath) (println WindowsManual st))
      else println SourceZsh (println SourceBash (println SourceHint
             (println RestartNotice (addToPath env downloadPath st)))))"

text \<open>
  How \<^verbatim>\<open>main\<close> ends: at one of its four \<^verbatim>\<open>return\<close> statements (lines 39, 45,
  52 and 149) or at its last line. \<^verbatim>\<open>time.Sleep\<close> (line 35) changes nothing that is
  modelled.
\<close>

datatype exit = Returned nat | Finished

text \<open>
  Lines 24-143: up to the question. The result is the early return, or the download
  directory, \<^verbatim>\<open>availableApps\<close>, the deferred calls and the state at the question.
\<close>

definition main_to_prompt ::
  "env \<Rightarrow> state \<Rightarrow> (exit \<times> state) + (string \<times> appInfo list \<times> resource list \<times> state)" where
  "main_to_prompt env st0 =
     (let st = println Intro (println Banner st0) in
      case ReadFile env ReposList of
        Inl e \<Rightarrow> Inl (Returned 39, println (FailedReadReposList e) st)
      | Inr data \<Rightarrow>
      (case Current env of
        Inl e \<Rightarrow> Inl (Returned 45, println (FailedGetCurrentUser e) st)
      | Inr home \<Rightarrow>
      (let downloadPath = Join [home, DownloadDir] in
       case os_MkdirAll env downloadPath st of
         (Some e, st1) \<Rightarrow> Inl (Returned 52, println (FailedCreateDownloadDir e) st1)
       | (None, st1) \<Rightarrow>
           (case fetch_loop env (SplitOn (CHR 0x0A) data) ([], [], st1) of
              (availableApps, deferred, st2) \<Rightarrow>
                Inr (downloadPath, availableApps, deferred,
                     println DownloadPrompt
                       (listApps availableApps (println AvailableHeader st2)))))))"

text \<open>The whole of \<^verbatim>\<open>main\<close>; its deferred calls run at lines 149 and 169.\<close>

definition main :: "env \<Rightarrow> state \<Rightarrow> exit \<times> state" where
  "main env st0 =
     (case main_to_prompt env st0 of
        Inl early \<Rightarrow> early
      | Inr (downloadPath, availableApps, deferred, st3) \<Rightarrow>
          (case ReadString (Stdin env) of
             Inl e \<Rightarrow> (Returned 149, run_deferred deferred (println (FailedReadInput e) st3))
           | Inr answer \<Rightarrow>
               (Finished,
                run_deferred deferred
                  (pathStep env downloadPath
                     (downloadPhase env downloadPath availableApps answer st3)))))"

subsection \<open>The scenario of the specification\<close>

text \<open>
  The end-to-end scenario of section 8 of the specification as an environment, on
  linux/amd64: the list names \<open>acme/tool\<close>, whose latest release has one asset for the
  platform; every other URL answers 404. The bodies of the two API answers stand for
  the JSON documents that decode to the description and to the asset list.
\<close>

definition toolAsset :: asset where
  "toolAsset =
     \<lparr>AssetName = ''tool-v2.0.0-linux-amd64'',
      BrowserDownloadUrl = ''https://example.com/dl/tool-v2.0.0-linux-amd64''\<rparr>"

definition scenario :: env where
  "scenario =
     \<lparr>GOOS = ''linux'', GOARCH = ''amd64'',
      ReadFile = (\<lambda>p. if p = ''repolist.txt'' then Inr (''acme/tool'' @ [CHR 0x0A])
                       else Inl ''no such file or directory''),
      Current = Inr ''/home/u'',
      MkdirAll = (\<lambda>p. None),
      Get = (\<lambda>url.
        if url = ''https://api.github.com/repos/acme/tool''
          then Inr \<lparr>StatusCode = 200, Body = ''{description}'', BodyErr = None\<rparr>
        else if url = ''https://api.github.com/repos/acme/tool/releases/latest''
          then Inr \<lparr>StatusCode = 200, Body = ''{assets}'', BodyErr = None\<rparr>
        else if url = ''https://example.com/dl/tool-v2.0.0-linux-amd64''
          then Inr \<lparr>StatusCode = 200, Body = ''ELF'', BodyErr = None\<rparr>
        else Inr \<lparr>StatusCode = 404, Body = ''Not Found'', BodyErr = None\<rparr>),
      UnmarshalRepoInfo = (\<lambda>b. if b = ''{description}'' then Inr ''a tool''
                                else Inl ''invalid character''),
      UnmarshalRelease = (\<lambda>b. if b = ''{assets}'' then Inr [toolAsset]
                               else Inl ''invalid character''),
      Stdin = ''yes'' @ [CHR 0x0A],
      SHELL = ''/bin/bash'',
      Create = (\<lambda>p. None), Copy = (\<lambda>p. None), Chmod = (\<lambda>p. None),
      OpenFile = (\<lambda>p. None), WriteString = (\<lambda>p. None),
      MapLower = (\<lambda>s. s)\<rparr>"

text \<open>A home directory with a \<open>.bashrc\<close> in it, before the run.\<close>

definition home0 :: state where
  "home0 =
     \<lparr>stdout = [],
      files = [''/home/u/.bashrc'' \<mapsto> \<lparr>content = ''# rc'', perm = 420\<rparr>],
      dirs = {''/home/u''}, requests = [], live = []\<rparr>"

text \<open>
  The name \<^verbatim>\<open>downloadAndStore\<close> gives the file (lines 178-185), and the path it
  creates (line 186).
\<close>

abbreviation appNameOf :: "string \<Rightarrow> string" where
  "appNameOf url \<equiv> take (nat (Index (Base url) ''-v'')) (Base url)"

abbreviation targetOf :: "string \<Rightarrow> string \<Rightarrow> string" where
  "targetOf downloadPath url \<equiv> Join [downloadPath, appNameOf url]"

text \<open>
  The condition of line 128, and the entry lines 129-133 build from an asset.
\<close>

abbreviation platformMatch :: "string \<Rightarrow> string \<Rightarrow> asset \<Rightarrow> bool" where
  "platformMatch os arch a \<equiv> Contains (AssetName a) os \<and> Contains (AssetName a) arch"

abbreviation entryOf :: "string \<Rightarrow> asset \<Rightarrow> appInfo" where
  "entryOf description a \<equiv>
     \<lparr>Name = AssetName a, Description = description, DownloadURL = BrowserDownloadUrl a\<rparr>"

text \<open>Two more assets: one for another platform, a second one for linux/amd64.\<close>

definition windowsAsset :: asset where
  "windowsAsset =
     \<lparr>AssetName = ''tool-v2.0.0-windows-amd64.exe'',
      BrowserDownloadUrl = ''https://example.com/dl/tool-v2.0.0-windows-amd64.exe''\<rparr>"

definition muslAsset :: asset where
  "muslAsset =
     \<lparr>AssetName = ''tool-v2.0.0-linux-amd64-musl'',
      BrowserDownloadUrl = ''https://example.com/dl/tool-v2.0.0-linux-amd64-musl''\<rparr>"

text \<open>The scenario with the answer \<open>no\<close>.\<close>

definition declining :: env where
  "declining = scenario\<lparr>Stdin := ''no'' @ [CHR 0x0A]\<rparr>"

text \<open>
  What it is for a pass of the loop to skip its reference with one printed line:
  \<^verbatim>\<open>availableApps\<close> is as before, the line is the only output, and no file or
  directory changes.
\<close>

abbreviation skipsWith ::
  "appInfo list \<times> resource list \<times> state \<Rightarrow> appInfo list \<Rightarrow> state \<Rightarrow> msg \<Rightarrow> bool" where
  "skipsWith r apps st m \<equiv>
     fst r = apps \<and> stdout (snd (snd r)) = stdout st @ [m]
     \<and> files (snd (snd r)) = files st \<and> dirs (snd (snd r)) = dirs st"

text \<open>The two URLs of a reference (lines 71 and 96), and a repository request that went
  through with description \<open>d\<close> (lines 72-94).\<close>

abbreviation infoURL :: "string \<Rightarrow> string" where
  "infoURL repo \<equiv> BaseURL @ repo"

abbreviation releaseURL :: "string \<Rightarrow> string" where
  "releaseURL repo \<equiv> BaseURL @ repo @ ''/releases/latest''"

abbreviation infoOK :: "env \<Rightarrow> string \<Rightarrow> response \<Rightarrow> string \<Rightarrow> bool" where
  "infoOK env repo r1 d \<equiv>
     Get env (infoURL repo) = Inr r1 \<and> StatusCode r1 = 200 \<and> BodyErr r1 = None
     \<and> UnmarshalRepoInfo env (Body r1) = Inr d"

text \<open>
  A network on which each request of the loop fails in each way once: for the
  references \<open>a/...\<close> the repository request, for \<open>b/...\<close> the release request, by a
  transport error, a status other than 200, a body that cannot be read, and a body that
  does not decode. The reference \<open>acme/tool\<close> is served as in the scenario.
\<close>

definition okInfo :: "err + response" where
  "okInfo = Inr \<lparr>StatusCode = 200, Body = ''{description}'', BodyErr = None\<rparr>"

definition flakyNet :: "(string \<times> (err + response)) list" where
  "flakyNet =
    [(''https://api.github.com/repos/a/transport'', Inl ''dial tcp: i/o timeout''),
     (''https://api.github.com/repos/a/status'',
        Inr \<lparr>StatusCode = 404, Body = ''Not Found'', BodyErr = None\<rparr>),
     (''https://api.github.com/repos/a/read'',
        Inr \<lparr>StatusCode = 200, Body = ''{desc'', BodyErr = Some ''unexpected EOF''\<rparr>),
     (''https://api.github.com/repos/a/json'',
        Inr \<lparr>StatusCode = 200, Body = ''<html>'', BodyErr = None\<rparr>),
     (''https://api.github.com/repos/b/transport'', okInfo),
     (''https://api.github.com/repos/b/transport/releases/latest'',
        Inl ''dial tcp: i/o timeout''),
     (''https://api.github.com/repos/b/status'', okInfo),
     (''https://api.github.com/repos/b/status/releases/latest'',
        Inr \<lparr>StatusCode = 500, Body = ''Server Error'', BodyErr = None\<rparr>),
     (''https://api.github.com/repos/b/read'', okInfo),
     (''https://api.github.com/repos/b/read/releases/latest'',
        Inr \<lparr>StatusCode = 200, Body = ''{ass'', BodyErr = Some ''unexpected EOF''\<rparr>),
     (''https://api.github.com/repos/b/json'', okInfo),
     (''https://api.github.com/repos/b/json/releases/latest'',
        Inr \<lparr>StatusCode = 200, Body = ''<html>'', BodyErr = None\<rparr>)]"

definition flakyList :: "string list" where
  "flakyList = [''a/transport'', ''a/status'', ''a/read'', ''a/json'',
                ''b/transport'', ''b/status'', ''b/read'', ''b/json'', ''acme/tool'']"

definition flaky :: env where
  "flaky = scenario
     \<lparr>ReadFile := (\<lambda>p. if p = ''repolist.txt''
                        then Inr (concat (map (\<lambda>l. l @ [CHR 0x0A]) flakyList))
                        else Inl ''no such file or directory''),
      Get := (\<lambda>url. case map_of flakyNet url of Some r \<Rightarrow> r | None \<Rightarrow> Get scenario url)\<rparr>"

text \<open>A run whose list names one repository, answered with status 404; the answer is \<open>no\<close>.\<close>

definition statusOnly :: env where
  "statusOnly = flaky\<lparr>ReadFile := (\<lambda>p. Inr (''a/status'' @ [CHR 0x0A])),
                      Stdin := ''no'' @ [CHR 0x0A]\<rparr>"

text \<open>
  The scenario with each of the four failures of \<^verbatim>\<open>main\<close>: no list file, no
  current user, a download directory that cannot be made, and an input that ends
  before a line feed.
\<close>

definition noList :: env where
  "noList = scenario\<lparr>ReadFile := (\<lambda>p. Inl ''no such file or directory'')\<rparr>"

definition noUser :: env where
  "noUser = scenario\<lparr>Current := Inl ''user: Current requires cgo or $USER set''\<rparr>"

definition noDir :: env where
  "noDir = scenario\<lparr>MkdirAll := (\<lambda>p. Some ''permission denied'')\<rparr>"

definition noAnswer :: env where
  "noAnswer = scenario\<lparr>Stdin := ''yes''\<rparr>"

text \<open>The profile file \<^verbatim>\<open>addToPath\<close> chooses for a value of \<^verbatim>\<open>SHELL\<close> (lines 212-220).\<close>

abbreviation shellrcFor :: "string \<Rightarrow> string option" where
  "shellrcFor shell \<equiv>
     (if Contains shell ''bash'' then Some ''.bashrc''
      else if Contains shell ''zsh'' then Some ''.zshrc''
      else None)"

text \<open>A user of zsh whose home directory has no \<open>.zshrc\<close> (the scenario has a \<open>.bashrc\<close> only).\<close>

definition zshUser :: env where
  "zshUser = scenario\<lparr>SHELL := ''/bin/zsh''\<rparr>"

text \<open>A user of a shell that is neither bash nor zsh.\<close>

definition fishUser :: env where
  "fishUser = scenario\<lparr>SHELL := ''/usr/bin/fish''\<rparr>"

text \<open>The scenario on Windows, with the answer \<open>no\<close>.\<close>

definition windowsUser :: env where
  "windowsUser = declining\<lparr>GOOS := ''windows''\<rparr>"

section \<open>Properties of the library functions\<close>

lemma Index_ge: "- 1 \<le> Index s substr"
  by (induction s) (auto simp: Let_def)

lemma HasPrefix_iff: "HasPrefix s pre \<longleftrightarrow> (\<exists>q. s = pre @ q)"
  unfolding HasPrefix_def
  by (metis append_eq_conv_conj append_take_drop_id)

lemma Index_none_iff: "Index s substr = - 1 \<longleftrightarrow> \<not> (\<exists>p q. s = p @ substr @ q)"
proof (induction s)
  case Nil
  then show ?case by auto
next
  case (Cons c s)
  show ?case
  proof (cases "HasPrefix (c # s) substr")
    case True
    then obtain q where "c # s = substr @ q" by (auto simp: HasPrefix_iff)
    then have "c # s = [] @ substr @ q" by simp
    with True show ?thesis by (metis Index.simps(2) zero_neq_neg_one)
  next
    case False
    have "(\<exists>p q. c # s = p @ substr @ q) \<longleftrightarrow> (\<exists>p q. s = p @ substr @ q)"
    proof
      assume "\<exists>p q. c # s = p @ substr @ q"
      then obtain p q where pq: "c # s = p @ substr @ q" by blast
      show "\<exists>p q. s = p @ substr @ q"
      proof (cases p)
        case Nil
        with pq False show ?thesis by (auto simp: HasPrefix_iff)
      next
        case (Cons a p')
        with pq have "s = p' @ substr @ q" by simp
        then show ?thesis by blast
      qed
    next
      assume "\<exists>p q. s = p @ substr @ q"
      then obtain p q where "s = p @ substr @ q" by blast
      then have "c # s = (c # p) @ substr @ q" by simp
      then show "\<exists>p q. c # s = p @ substr @ q" by blast
    qed
    with False Cons.IH Index_ge [of s substr] show ?thesis
      by (auto simp: Let_def)
  qed
qed

lemma Contains_iff: "Contains s substr \<longleftrightarrow> (\<exists>p q. s = p @ substr @ q)"
proof -
  have "Contains s substr \<longleftrightarrow> Index s substr \<noteq> - 1"
    using Index_ge [of s substr] by (auto simp: Contains_def)
  then show ?thesis by (simp add: Index_none_iff)
qed

lemma HasPrefix_length: "HasPrefix s pre \<Longrightarrow> length pre \<le> length s"
  by (auto simp: HasPrefix_iff)

lemma Index_Cons_no: "\<not> HasPrefix (c # s) substr \<Longrightarrow> 0 \<le> Index (c # s) substr \<Longrightarrow>
   0 \<le> Index s substr \<and> Index (c # s) substr = Index s substr + 1"
  using Index_ge [of s substr] by (simp add: Let_def split: if_splits)

lemma Index_first:
  "0 \<le> Index s substr \<Longrightarrow>
     HasPrefix (drop (nat (Index s substr)) s) substr \<and>
     nat (Index s substr) + length substr \<le> length s \<and>
     (\<forall>j < nat (Index s substr). \<not> HasPrefix (drop j s) substr)"
proof (induction s)
  case Nil
  then show ?case by (simp add: HasPrefix_def split: if_splits)
next
  case (Cons c s)
  show ?case
  proof (cases "HasPrefix (c # s) substr")
    case True
    then have z: "Index (c # s) substr = 0" by simp
    from True have "length substr \<le> length (c # s)" by (rule HasPrefix_length)
    with True show ?thesis unfolding z by simp
  next
    case False
    from Index_Cons_no [OF False Cons.prems]
    have ge: "0 \<le> Index s substr" and eq: "Index (c # s) substr = Index s substr + 1"
      by simp_all
    have n: "nat (Index (c # s) substr) = Suc (nat (Index s substr))"
      using ge eq by simp
    from Cons.IH [OF ge] have ih1: "HasPrefix (drop (nat (Index s substr)) s) substr"
      and ih2: "nat (Index s substr) + length substr \<le> length s"
      and ih3: "\<forall>j < nat (Index s substr). \<not> HasPrefix (drop j s) substr" by simp_all
    have "\<not> HasPrefix (drop j (c # s)) substr" if "j < Suc (nat (Index s substr))" for j
    proof (cases j)
      case 0
      with False show ?thesis by simp
    next
      case (Suc k)
      with that ih3 show ?thesis by simp
    qed
    with ih1 ih2 show ?thesis unfolding n by simp
  qed
qed

lemma println_fields [simp]:
  "stdout (println m st) = stdout st @ [m]"
  "files (println m st) = files st"
  "dirs (println m st) = dirs st"
  "requests (println m st) = requests st"
  "live (println m st) = live st"
  by (simp_all add: println_def)

lemma Close_fields [simp]:
  "stdout (Close r st) = stdout st"
  "files (Close r st) = files st"
  "dirs (Close r st) = dirs st"
  "requests (Close r st) = requests st"
  "live (Close r st) = remove1 r (live st)"
  by (simp_all add: Close_def)

lemma run_deferred_Nil [simp]: "run_deferred [] st = st"
  by (simp add: run_deferred_def)

lemma run_deferred_Cons [simp]: "run_deferred (d # ds) st = run_deferred ds (Close d st)"
  by (simp add: run_deferred_def)

lemma run_deferred_stdout [simp]: "stdout (run_deferred ds st) = stdout st"
  by (induction ds arbitrary: st) simp_all

lemma run_deferred_files [simp]: "files (run_deferred ds st) = files st"
  by (induction ds arbitrary: st) simp_all

lemma run_deferred_dirs [simp]: "dirs (run_deferred ds st) = dirs st"
  by (induction ds arbitrary: st) simp_all

lemma run_deferred_requests [simp]: "requests (run_deferred ds st) = requests st"
  by (induction ds arbitrary: st) simp_all

lemma http_Get_fields [simp]:
  "stdout (snd (http_Get env url st)) = stdout st"
  "files (snd (http_Get env url st)) = files st"
  "dirs (snd (http_Get env url st)) = dirs st"
  "requests (snd (http_Get env url st)) = requests st @ [url]"
  by (simp_all add: http_Get_def Let_def split: sum.splits)

lemma os_Create_fields [simp]:
  "stdout (snd (os_Create env p st)) = stdout st"
  "dirs (snd (os_Create env p st)) = dirs st"
  "requests (snd (os_Create env p st)) = requests st"
  by (simp_all add: os_Create_def split: option.splits)

lemma os_Create_files: "q \<noteq> p \<Longrightarrow> files (snd (os_Create env p st)) q = files st q"
  by (simp add: os_Create_def split: option.splits)

lemma io_Copy_fields [simp]:
  "stdout (snd (io_Copy env p resp st)) = stdout st"
  "dirs (snd (io_Copy env p resp st)) = dirs st"
  "requests (snd (io_Copy env p resp st)) = requests st"
  by (simp_all add: io_Copy_def split: option.splits)

lemma io_Copy_files: "q \<noteq> p \<Longrightarrow> files (snd (io_Copy env p resp st)) q = files st q"
  by (simp add: io_Copy_def split: option.splits)

lemma os_Chmod_fields [simp]:
  "stdout (snd (os_Chmod env p m st)) = stdout st"
  "dirs (snd (os_Chmod env p m st)) = dirs st"
  "requests (snd (os_Chmod env p m st)) = requests st"
  by (simp_all add: os_Chmod_def split: option.splits)

lemma os_Chmod_files: "q \<noteq> p \<Longrightarrow> files (snd (os_Chmod env p m st)) q = files st q"
  by (simp add: os_Chmod_def split: option.splits)

lemma os_OpenFile_fields [simp]:
  "stdout (snd (os_OpenFile env p st)) = stdout st"
  "files (snd (os_OpenFile env p st)) = files st"
  "dirs (snd (os_OpenFile env p st)) = dirs st"
  "requests (snd (os_OpenFile env p st)) = requests st"
  by (simp_all add: os_OpenFile_def split: option.splits)

lemma file_WriteString_fields [simp]:
  "stdout (snd (file_WriteString env p s st)) = stdout st"
  "dirs (snd (file_WriteString env p s st)) = dirs st"
  "requests (snd (file_WriteString env p s st)) = requests st"
  by (simp_all add: file_WriteString_def split: option.splits)

lemma file_WriteString_files:
  "q \<noteq> p \<Longrightarrow> files (snd (file_WriteString env p s st)) q = files st q"
  by (simp add: file_WriteString_def split: option.splits)

lemma downloadAndStore_requests [simp]:
  "requests (downloadAndStore env url dp st) = requests st @ [url]"
  by (simp add: downloadAndStore_def downloadAndStore_body_def Let_def case_prod_beta
      split: sum.splits option.splits)

lemma downloadAndStore_dirs [simp]:
  "dirs (downloadAndStore env url dp st) = dirs st"
  by (simp add: downloadAndStore_def downloadAndStore_body_def Let_def case_prod_beta
      split: sum.splits option.splits)

lemma downloadAndStore_files_other:
  "q \<noteq> Join [dp, take (nat (Index (Base url) ''-v'')) (Base url)] \<Longrightarrow>
   files (downloadAndStore env url dp st) q = files st q"
  by (simp add: downloadAndStore_def downloadAndStore_body_def Let_def case_prod_beta
      os_Create_files io_Copy_files os_Chmod_files
      split: sum.splits option.splits)

lemma downloadAndStore_no_marker:
  "Index (Base url) ''-v'' = - 1 \<Longrightarrow>
   files (downloadAndStore env url dp st) = files st \<and>
   stdout (downloadAndStore env url dp st) =
     stdout st @ [case Get env url of Inl e \<Rightarrow> FailedDownload e
                  | Inr resp \<Rightarrow> InvalidFilename (Base url)]"
  by (simp add: downloadAndStore_def downloadAndStore_body_def Let_def case_prod_beta
      http_Get_def split: sum.splits option.splits)

lemma downloadAndStore_one_line:
  "\<exists>m. stdout (downloadAndStore env url dp st) = stdout st @ [m]"
  by (simp add: downloadAndStore_def downloadAndStore_body_def Let_def case_prod_beta
      split: sum.splits option.splits)

lemma downloadAndStore_saved:
  assumes "Get env url = Inr resp" and "0 \<le> Index (Base url) ''-v''"
    and "targetOf dp url \<notin> dirs st"
    and "Create env (targetOf dp url) = None" and "Copy env (targetOf dp url) = None"
    and "BodyErr resp = None" and "Chmod env (targetOf dp url) = None"
  shows "files (downloadAndStore env url dp st) (targetOf dp url) =
           Some \<lparr>content = Body resp, perm = 493\<rparr>
         \<and> stdout (downloadAndStore env url dp st) = stdout st @ [FileSaved (targetOf dp url)]"
  using assms
  by (simp add: downloadAndStore_def downloadAndStore_body_def Let_def
      http_Get_def os_Create_def io_Copy_def os_Chmod_def)

section \<open>The asset selector\<close>

lemma scanAssets_find:
  "scanAssets os arch d assets apps =
     (case find (platformMatch os arch) assets of
        None \<Rightarrow> apps
      | Some a \<Rightarrow> apps @ [entryOf d a])"
  by (induction assets) simp_all

lemma find_filter_hd: "find P xs = (case filter P xs of [] \<Rightarrow> None | x # _ \<Rightarrow> Some x)"
  by (induction xs) simp_all

lemma find_first_match:
  "\<forall>x \<in> set pre. \<not> P x \<Longrightarrow> P a \<Longrightarrow> find P (pre @ a # rest) = Some a"
  by (induction pre) simp_all

lemma platform_toolAsset: "platformMatch ''linux'' ''amd64'' toolAsset"
  by code_simp

lemma platform_muslAsset: "platformMatch ''linux'' ''amd64'' muslAsset"
  by code_simp

lemma platform_windowsAsset: "\<not> Contains (AssetName windowsAsset) ''linux''"
  by code_simp

lemma fetch_repo_found:
  assumes "TrimSpace line = repo" "repo \<noteq> []" "infoOK env repo r1 d"
    "Get env (releaseURL repo) = Inr r2" "StatusCode r2 = 200" "BodyErr r2 = None"
    "UnmarshalRelease env (Body r2) = Inr assets"
  shows "fst (fetch_repo env line (apps, ds, st)) =
           scanAssets (GOOS env) (GOARCH env) d assets apps"
  using assms by (simp add: fetch_repo_def Let_def http_Get_def ReadAll_def)

lemma scenario_platform: "GOOS scenario = ''linux''" "GOARCH scenario = ''amd64''"
  by (simp_all add: scenario_def)

text \<open>
  C1. The loop over a release's assets adds the entry of the first asset, in the
  order of the list, whose name contains both the OS and the architecture identifier as
  a substring (byte for byte, so with the case of the letters), and nothing else: the
  assets after it are not looked at, and a list with no such asset leaves
  \<^verbatim>\<open>availableApps\<close> as it was. Two asset lists whose matching assets are the same, in
  the same order, give the same result: the non-matching assets can be moved, added or
  removed freely. For a reference whose two requests went through, the pass of the loop
  over the references leaves in \<^verbatim>\<open>availableApps\<close> the result of that scan of its
  assets, with \<^verbatim>\<open>runtime.GOOS\<close> and \<^verbatim>\<open>runtime.GOARCH\<close> as the identifiers.
\<close>

theorem asset_selection:
  "scanAssets os arch d assets apps =
     (case find (platformMatch os arch) assets of
        None \<Rightarrow> apps
      | Some a \<Rightarrow> apps @ [entryOf d a])
   \<and> ((\<forall>x \<in> set pre. \<not> platformMatch os arch x) \<and> platformMatch os arch a \<longrightarrow>
        scanAssets os arch d (pre @ a # rest) apps = apps @ [entryOf d a])
   \<and> ((\<forall>x \<in> set assets. \<not> platformMatch os arch x) \<longrightarrow>
        scanAssets os arch d assets apps = apps)
   \<and> (filter (platformMatch os arch) xs = filter (platformMatch os arch) ys \<longrightarrow>
        scanAssets os arch d xs apps = scanAssets os arch d ys apps)
   \<and> (platformMatch os arch a \<longleftrightarrow>
        (\<exists>p q. AssetName a = p @ os @ q) \<and> (\<exists>p q. AssetName a = p @ arch @ q))
   \<and> (TrimSpace line = repo \<and> repo \<noteq> [] \<and> infoOK env repo r1 d
        \<and> Get env (releaseURL repo) = Inr r2 \<and> StatusCode r2 = 200 \<and> BodyErr r2 = None
        \<and> UnmarshalRelease env (Body r2) = Inr assets \<longrightarrow>
        fst (fetch_repo env line (apps, ds, st)) =
          scanAssets (GOOS env) (GOARCH env) d assets apps)"
proof (intro conjI impI)
  show "scanAssets os arch d assets apps =
     (case find (platformMatch os arch) assets of
        None \<Rightarrow> apps
      | Some a \<Rightarrow> apps @ [entryOf d a])"
    by (rule scanAssets_find)
next
  assume "(\<forall>x \<in> set pre. \<not> platformMatch os arch x) \<and> platformMatch os arch a"
  then have "find (platformMatch os arch) (pre @ a # rest) = Some a"
    by (intro find_first_match) simp_all
  then show "scanAssets os arch d (pre @ a # rest) apps = apps @ [entryOf d a]"
    by (simp add: scanAssets_find)
next
  assume "\<forall>x \<in> set assets. \<not> platformMatch os arch x"
  then have "find (platformMatch os arch) assets = None"
    by (simp add: find_None_iff)
  then show "scanAssets os arch d assets apps = apps"
    by (simp add: scanAssets_find)
next
  assume "filter (platformMatch os arch) xs = filter (platformMatch os arch) ys"
  then have "find (platformMatch os arch) xs = find (platformMatch os arch) ys"
    by (simp add: find_filter_hd)
  then show "scanAssets os arch d xs apps = scanAssets os arch d ys apps"
    by (simp add: scanAssets_find)
next
  show "platformMatch os arch a \<longleftrightarrow>
        (\<exists>p q. AssetName a = p @ os @ q) \<and> (\<exists>p q. AssetName a = p @ arch @ q)"
    by (simp add: Contains_iff)
next
  assume "TrimSpace line = repo \<and> repo \<noteq> [] \<and> infoOK env repo r1 d
        \<and> Get env (releaseURL repo) = Inr r2 \<and> StatusCode r2 = 200 \<and> BodyErr r2 = None
        \<and> UnmarshalRelease env (Body r2) = Inr assets"
  then show "fst (fetch_repo env line (apps, ds, st)) =
          scanAssets (GOOS env) (GOARCH env) d assets apps"
    by (intro fetch_repo_found [of line repo env r1 d r2 assets apps ds st]) simp_all
qed

theorem asset_selection_witness:
  "scanAssets ''linux'' ''amd64'' ''a tool'' [windowsAsset, toolAsset, muslAsset] []
     = [entryOf ''a tool'' toolAsset]
   \<and> scanAssets ''linux'' ''amd64'' ''a tool'' [windowsAsset] [] = []
   \<and> scanAssets ''linux'' ''amd64'' ''a tool'' [toolAsset, windowsAsset, muslAsset] []
     = scanAssets ''linux'' ''amd64'' ''a tool'' [windowsAsset, toolAsset, muslAsset] []
   \<and> fst (fetch_repo scenario ''acme/tool'' ([], [], home0)) = [entryOf ''a tool'' toolAsset]"
proof -
  note sel = asset_selection [where os = "''linux''" and arch = "''amd64''" and d = "''a tool''"
      and assets = "[windowsAsset]" and apps = "[]" and pre = "[windowsAsset]"
      and a = toolAsset and rest = "[muslAsset]"
      and xs = "[toolAsset, windowsAsset, muslAsset]"
      and ys = "[windowsAsset, toolAsset, muslAsset]"]
  have pre: "(\<forall>x \<in> set [windowsAsset]. \<not> platformMatch ''linux'' ''amd64'' x)
      \<and> platformMatch ''linux'' ''amd64'' toolAsset"
    using platform_windowsAsset platform_toolAsset by simp
  have none: "\<forall>x \<in> set [windowsAsset]. \<not> platformMatch ''linux'' ''amd64'' x"
    using platform_windowsAsset by simp
  have flt: "filter (platformMatch ''linux'' ''amd64'') [toolAsset, windowsAsset, muslAsset]
      = filter (platformMatch ''linux'' ''amd64'') [windowsAsset, toolAsset, muslAsset]"
    using platform_windowsAsset platform_toolAsset platform_muslAsset by simp
  note first = sel [THEN conjunct2, THEN conjunct1, THEN mp, OF pre]
  note nothing = sel [THEN conjunct2, THEN conjunct2, THEN conjunct1, THEN mp, OF none]
  note moved = sel [THEN conjunct2, THEN conjunct2, THEN conjunct2, THEN conjunct1,
      THEN mp, OF flt]
  have hf: "TrimSpace ''acme/tool'' = ''acme/tool'' \<and> ''acme/tool'' \<noteq> []
      \<and> infoOK scenario ''acme/tool''
           \<lparr>StatusCode = 200, Body = ''{description}'', BodyErr = None\<rparr> ''a tool''
      \<and> Get scenario (releaseURL ''acme/tool'')
           = Inr \<lparr>StatusCode = 200, Body = ''{assets}'', BodyErr = None\<rparr>
      \<and> StatusCode \<lparr>StatusCode = 200, Body = ''{assets}'', BodyErr = None\<rparr> = 200
      \<and> BodyErr \<lparr>StatusCode = 200, Body = ''{assets}'', BodyErr = None\<rparr> = None
      \<and> UnmarshalRelease scenario
           (Body \<lparr>StatusCode = 200, Body = ''{assets}'', BodyErr = None\<rparr>) = Inr [toolAsset]"
    by code_simp
  note found = asset_selection [where env = scenario and line = "''acme/tool''"
      and repo = "''acme/tool''" and d = "''a tool''" and assets = "[toolAsset]"
      and apps = "[]" and ds = "[]" and st = home0
      and ?r1.0 = "\<lparr>StatusCode = 200, Body = ''{description}'', BodyErr = None\<rparr>"
      and ?r2.0 = "\<lparr>StatusCode = 200, Body = ''{assets}'', BodyErr = None\<rparr>",
      THEN conjunct2, THEN conjunct2, THEN conjunct2, THEN conjunct2, THEN conjunct2,
      THEN mp, OF hf, unfolded scenario_platform]
  have c1: "scanAssets ''linux'' ''amd64'' ''a tool'' [windowsAsset, toolAsset, muslAsset] []
     = [entryOf ''a tool'' toolAsset]"
    using first platform_windowsAsset platform_toolAsset by simp
  have c2: "scanAssets ''linux'' ''amd64'' ''a tool'' [windowsAsset] [] = []"
    using nothing platform_windowsAsset by simp
  have c3: "scanAssets ''linux'' ''amd64'' ''a tool'' [toolAsset, windowsAsset, muslAsset] []
     = scanAssets ''linux'' ''amd64'' ''a tool'' [windowsAsset, toolAsset, muslAsset] []"
    using moved platform_windowsAsset platform_toolAsset by simp
  have "scanAssets ''linux'' ''amd64'' ''a tool'' [toolAsset] [] = [entryOf ''a tool'' toolAsset]"
    using platform_toolAsset by simp
  then have c4: "fst (fetch_repo scenario ''acme/tool'' ([], [], home0))
     = [entryOf ''a tool'' toolAsset]"
    using found by simp
  show ?thesis by (intro conjI c1 c2 c3 c4)
qed

section \<open>Entries and matching assets\<close>

lemma fetch_repo_apps:
  "fst (fetch_repo env line (apps, ds, st)) = apps \<or>
   (\<exists>d assets. fst (fetch_repo env line (apps, ds, st)) =
      scanAssets (GOOS env) (GOARCH env) d assets apps)"
  by (simp add: fetch_repo_def Let_def case_prod_beta split: sum.splits) blast

lemma find_SomeD: "find P xs = Some b \<Longrightarrow> P b \<and> b \<in> set xs"
  by (induction xs) (simp_all split: if_splits)

lemma scanAssets_length: "length (scanAssets os arch d assets apps) \<le> Suc (length apps)"
  by (simp add: scanAssets_find split: option.splits)

lemma scanAssets_prefix: "take (length apps) (scanAssets os arch d assets apps) = apps"
  by (simp add: scanAssets_find split: option.splits)

text \<open>
  C8, as the specification states it, fails: a release with two assets for the
  platform gets an entry, the one of the first of the two.
\<close>

theorem ambiguous_match_counterexample:
  "length (filter (platformMatch ''linux'' ''amd64'') [toolAsset, muslAsset]) = 2
   \<and> scanAssets ''linux'' ''amd64'' ''a tool'' [toolAsset, muslAsset] []
       = [entryOf ''a tool'' toolAsset]"
  using platform_toolAsset platform_muslAsset by simp

text \<open>
  C8, amended. The loop over a release's assets adds an entry exactly when at least
  one asset matches both identifiers, whether one matches or several; the entry is the
  one of the first matching asset; no entry is added when none matches. A pass of the
  loop over the references adds at most one entry, after the entries that were there.
\<close>

theorem entry_iff_some_match:
  "(scanAssets os arch d assets apps \<noteq> apps \<longleftrightarrow> (\<exists>a \<in> set assets. platformMatch os arch a))
   \<and> (filter (platformMatch os arch) assets = a # others \<longrightarrow>
        scanAssets os arch d assets apps = apps @ [entryOf d a])
   \<and> (filter (platformMatch os arch) assets = [] \<longrightarrow>
        scanAssets os arch d assets apps = apps)
   \<and> length (fst (fetch_repo env line (apps, ds, st))) \<le> Suc (length apps)
   \<and> take (length apps) (fst (fetch_repo env line (apps, ds, st))) = apps"
proof (intro conjI impI)
  show "scanAssets os arch d assets apps \<noteq> apps \<longleftrightarrow> (\<exists>a \<in> set assets. platformMatch os arch a)"
  proof (cases "find (platformMatch os arch) assets")
    case None
    then have "\<not> (\<exists>a \<in> set assets. platformMatch os arch a)"
      by (auto simp: find_None_iff)
    with None show ?thesis by (simp add: scanAssets_find)
  next
    case (Some b)
    then have "\<exists>a \<in> set assets. platformMatch os arch a"
      using find_SomeD [of "platformMatch os arch" assets b] by blast
    with Some show ?thesis by (simp add: scanAssets_find)
  qed
next
  assume "filter (platformMatch os arch) assets = a # others"
  then show "scanAssets os arch d assets apps = apps @ [entryOf d a]"
    by (simp add: scanAssets_find find_filter_hd)
next
  assume "filter (platformMatch os arch) assets = []"
  then show "scanAssets os arch d assets apps = apps"
    by (simp add: scanAssets_find find_filter_hd)
next
  from fetch_repo_apps [of env line apps ds st]
  consider "fst (fetch_repo env line (apps, ds, st)) = apps"
    | d' assets' where "fst (fetch_repo env line (apps, ds, st)) =
        scanAssets (GOOS env) (GOARCH env) d' assets' apps"
    by blast
  then show "length (fst (fetch_repo env line (apps, ds, st))) \<le> Suc (length apps)"
    by cases (simp_all add: scanAssets_length)
next
  from fetch_repo_apps [of env line apps ds st]
  consider "fst (fetch_repo env line (apps, ds, st)) = apps"
    | d' assets' where "fst (fetch_repo env line (apps, ds, st)) =
        scanAssets (GOOS env) (GOARCH env) d' assets' apps"
    by blast
  then show "take (length apps) (fst (fetch_repo env line (apps, ds, st))) = apps"
    by cases (simp_all add: scanAssets_prefix)
qed

theorem entry_iff_some_match_witness:
  "scanAssets ''linux'' ''amd64'' ''a tool'' [windowsAsset, toolAsset, muslAsset] []
     = [entryOf ''a tool'' toolAsset]
   \<and> scanAssets ''linux'' ''amd64'' ''a tool'' [windowsAsset] [] = []
   \<and> (\<exists>a \<in> set [windowsAsset, toolAsset, muslAsset]. platformMatch ''linux'' ''amd64'' a)"
proof -
  have two: "filter (platformMatch ''linux'' ''amd64'') [windowsAsset, toolAsset, muslAsset]
      = toolAsset # [muslAsset]"
    using platform_windowsAsset platform_toolAsset platform_muslAsset by simp
  have none: "filter (platformMatch ''linux'' ''amd64'') [windowsAsset] = []"
    using platform_windowsAsset by simp
  from entry_iff_some_match [of "''linux''" "''amd64''" "''a tool''"
      "[windowsAsset, toolAsset, muslAsset]" "[]" toolAsset "[muslAsset]"] two
  have a: "scanAssets ''linux'' ''amd64'' ''a tool'' [windowsAsset, toolAsset, muslAsset] []
     = [entryOf ''a tool'' toolAsset]" by simp
  from entry_iff_some_match [of "''linux''" "''amd64''" "''a tool''"
      "[windowsAsset]" "[]"] none
  have b: "scanAssets ''linux'' ''amd64'' ''a tool'' [windowsAsset] [] = []" by simp
  from a b platform_toolAsset show ?thesis by simp
qed

section \<open>The name of the downloaded file\<close>

lemma scenario_tool_base:
  "Base ''https://example.com/dl/tool-v2.0.0-linux-amd64'' = ''tool-v2.0.0-linux-amd64''"
  by code_simp

lemma scenario_tool_index: "Index ''tool-v2.0.0-linux-amd64'' ''-v'' = 4"
  by code_simp

lemma scenario_tool_target: "Join [''/home/u/.donut-utils'', ''tool''] = ''/home/u/.donut-utils/tool''"
  by code_simp

lemma no_marker_base: "Base ''https://example.com/dl/tool.tar.gz'' = ''tool.tar.gz''"
  by code_simp

lemma no_marker_index: "Index ''tool.tar.gz'' ''-v'' = - 1"
  by code_simp

text \<open>
  C2. \<^verbatim>\<open>downloadAndStore\<close> takes the name of its file from the base name of the
  URL alone: the bytes before the first \<open>"-v"\<close> in it. The only path whose file the
  call can change is that name joined to the download directory, and a download that
  goes through leaves the body there, mode 0755, and prints the path. When the base
  name has no \<open>"-v"\<close>, the call prints one line, the invalid-filename line (or the
  failed-download line when the request itself failed), and no file changes. The base
  name \<open>myapp-v1.2.0-linux-amd64\<close> gives \<open>myapp\<close>.
\<close>

theorem filename_derivation:
  "(Index (Base url) ''-v'' = - 1 \<longrightarrow>
      files (downloadAndStore env url dp st) = files st
      \<and> stdout (downloadAndStore env url dp st) =
          stdout st @ [case Get env url of Inl e \<Rightarrow> FailedDownload e
                       | Inr resp \<Rightarrow> InvalidFilename (Base url)])
   \<and> (Index (Base url) ''-v'' = - 1 \<longleftrightarrow> \<not> (\<exists>p q. Base url = p @ ''-v'' @ q))
   \<and> (0 \<le> Index (Base url) ''-v'' \<longrightarrow>
        HasPrefix (drop (length (appNameOf url)) (Base url)) ''-v''
        \<and> HasPrefix (Base url) (appNameOf url)
        \<and> (\<forall>j < length (appNameOf url). \<not> HasPrefix (drop j (Base url)) ''-v''))
   \<and> (q \<noteq> targetOf dp url \<longrightarrow> files (downloadAndStore env url dp st) q = files st q)
   \<and> (Get env url = Inr resp \<and> 0 \<le> Index (Base url) ''-v''
        \<and> targetOf dp url \<notin> dirs st
        \<and> Create env (targetOf dp url) = None \<and> Copy env (targetOf dp url) = None
        \<and> BodyErr resp = None \<and> Chmod env (targetOf dp url) = None \<longrightarrow>
        files (downloadAndStore env url dp st) (targetOf dp url) =
          Some \<lparr>content = Body resp, perm = 493\<rparr>
        \<and> stdout (downloadAndStore env url dp st) = stdout st @ [FileSaved (targetOf dp url)])
   \<and> (Base url = Base url' \<longrightarrow> targetOf dp url = targetOf dp url')
   \<and> take (nat (Index ''myapp-v1.2.0-linux-amd64'' ''-v'')) ''myapp-v1.2.0-linux-amd64''
        = ''myapp''"
proof (intro conjI impI)
  assume "Index (Base url) ''-v'' = - 1"
  from downloadAndStore_no_marker [OF this, of env dp st]
  show "files (downloadAndStore env url dp st) = files st"
    and "stdout (downloadAndStore env url dp st) =
          stdout st @ [case Get env url of Inl e \<Rightarrow> FailedDownload e
                       | Inr resp \<Rightarrow> InvalidFilename (Base url)]"
    by simp_all
next
  show "Index (Base url) ''-v'' = - 1 \<longleftrightarrow> \<not> (\<exists>p q. Base url = p @ ''-v'' @ q)"
    by (rule Index_none_iff)
next
  assume ge: "0 \<le> Index (Base url) ''-v''"
  note first = Index_first [OF ge]
  from first have le: "nat (Index (Base url) ''-v'') \<le> length (Base url)" by simp
  then have len: "length (appNameOf url) = nat (Index (Base url) ''-v'')" by simp
  from first show "HasPrefix (drop (length (appNameOf url)) (Base url)) ''-v''"
    unfolding len by simp
  show "HasPrefix (Base url) (appNameOf url)"
    unfolding HasPrefix_def len by simp
  from first show "\<forall>j < length (appNameOf url). \<not> HasPrefix (drop j (Base url)) ''-v''"
    unfolding len by simp
next
  assume "q \<noteq> targetOf dp url"
  then show "files (downloadAndStore env url dp st) q = files st q"
    by (rule downloadAndStore_files_other)
next
  assume a: "Get env url = Inr resp \<and> 0 \<le> Index (Base url) ''-v''
        \<and> targetOf dp url \<notin> dirs st
        \<and> Create env (targetOf dp url) = None \<and> Copy env (targetOf dp url) = None
        \<and> BodyErr resp = None \<and> Chmod env (targetOf dp url) = None"
  then have "files (downloadAndStore env url dp st) (targetOf dp url) =
           Some \<lparr>content = Body resp, perm = 493\<rparr>
         \<and> stdout (downloadAndStore env url dp st) = stdout st @ [FileSaved (targetOf dp url)]"
    by (intro downloadAndStore_saved) simp_all
  then show "files (downloadAndStore env url dp st) (targetOf dp url) =
          Some \<lparr>content = Body resp, perm = 493\<rparr>"
    and "stdout (downloadAndStore env url dp st) = stdout st @ [FileSaved (targetOf dp url)]"
    by simp_all
next
  assume "Base url = Base url'"
  then show "targetOf dp url = targetOf dp url'" by simp
next
  show "take (nat (Index ''myapp-v1.2.0-linux-amd64'' ''-v'')) ''myapp-v1.2.0-linux-amd64''
        = ''myapp''"
    by code_simp
qed

lemma scenario_tool_targetOf:
  "targetOf ''/home/u/.donut-utils'' ''https://example.com/dl/tool-v2.0.0-linux-amd64''
     = ''/home/u/.donut-utils/tool''"
  by code_simp

lemma scenario_Get_other:
  "Get scenario ''https://example.com/dl/tool.tar.gz''
     = Inr \<lparr>StatusCode = 404, Body = ''Not Found'', BodyErr = None\<rparr>"
  by code_simp

theorem filename_derivation_witness:
  "files (downloadAndStore scenario ''https://example.com/dl/tool-v2.0.0-linux-amd64''
            ''/home/u/.donut-utils'' home0) ''/home/u/.donut-utils/tool''
     = Some \<lparr>content = ''ELF'', perm = 493\<rparr>
   \<and> stdout (downloadAndStore scenario ''https://example.com/dl/tool-v2.0.0-linux-amd64''
            ''/home/u/.donut-utils'' home0) = [FileSaved ''/home/u/.donut-utils/tool'']
   \<and> files (downloadAndStore scenario ''https://example.com/dl/tool-v2.0.0-linux-amd64''
            ''/home/u/.donut-utils'' home0) ''/home/u/.bashrc'' = files home0 ''/home/u/.bashrc''
   \<and> files (downloadAndStore scenario ''https://example.com/dl/tool.tar.gz''
            ''/home/u/.donut-utils'' home0) = files home0
   \<and> stdout (downloadAndStore scenario ''https://example.com/dl/tool.tar.gz''
            ''/home/u/.donut-utils'' home0) = [InvalidFilename ''tool.tar.gz'']"
proof -
  note fd = filename_derivation [of "''https://example.com/dl/tool-v2.0.0-linux-amd64''" scenario
      "''/home/u/.donut-utils''" home0 "''/home/u/.bashrc''"
      "\<lparr>StatusCode = 200, Body = ''ELF'', BodyErr = None\<rparr>"
      "''https://example.com/dl/tool-v2.0.0-linux-amd64''"]
  note other = fd [THEN conjunct2, THEN conjunct2, THEN conjunct2, THEN conjunct1, THEN mp]
  note saved = fd [THEN conjunct2, THEN conjunct2, THEN conjunct2, THEN conjunct2,
      THEN conjunct1, THEN mp]
  note nm = filename_derivation [of "''https://example.com/dl/tool.tar.gz''" scenario
      "''/home/u/.donut-utils''" home0, THEN conjunct1, THEN mp]
  have h1: "''/home/u/.bashrc'' \<noteq>
      targetOf ''/home/u/.donut-utils'' ''https://example.com/dl/tool-v2.0.0-linux-amd64''"
    by code_simp
  have h2: "Get scenario ''https://example.com/dl/tool-v2.0.0-linux-amd64''
        = Inr \<lparr>StatusCode = 200, Body = ''ELF'', BodyErr = None\<rparr>
      \<and> 0 \<le> Index (Base ''https://example.com/dl/tool-v2.0.0-linux-amd64'') ''-v''
      \<and> targetOf ''/home/u/.donut-utils'' ''https://example.com/dl/tool-v2.0.0-linux-amd64''
          \<notin> dirs home0
      \<and> Create scenario (targetOf ''/home/u/.donut-utils''
            ''https://example.com/dl/tool-v2.0.0-linux-amd64'') = None
      \<and> Copy scenario (targetOf ''/home/u/.donut-utils''
            ''https://example.com/dl/tool-v2.0.0-linux-amd64'') = None
      \<and> BodyErr \<lparr>StatusCode = 200, Body = ''ELF'', BodyErr = None\<rparr> = None
      \<and> Chmod scenario (targetOf ''/home/u/.donut-utils''
            ''https://example.com/dl/tool-v2.0.0-linux-amd64'') = None"
    by code_simp
  have h3: "Index (Base ''https://example.com/dl/tool.tar.gz'') ''-v'' = - 1"
    by code_simp
  have out0: "stdout home0 = []" by (simp add: home0_def)
  from other [OF h1] saved [OF h2, unfolded scenario_tool_targetOf]
    nm [OF h3, unfolded scenario_Get_other no_marker_base]
  show ?thesis by (simp add: out0)
qed

section \<open>A download that is answered with an error status\<close>

lemma gone_targetOf:
  "targetOf ''/home/u/.donut-utils'' ''https://example.com/dl/gone-v1.0.0-linux-amd64''
     = ''/home/u/.donut-utils/gone''"
  by code_simp

lemma scenario_faults:
  "Create scenario p = None" "Copy scenario p = None" "Chmod scenario p = None"
  "OpenFile scenario p = None" "WriteString scenario p = None" "MkdirAll scenario p = None"
  by (simp_all add: scenario_def)

lemma io_Copy_status [simp]:
  "io_Copy env p (resp\<lparr>StatusCode := code\<rparr>) st = io_Copy env p resp st"
  by (simp add: io_Copy_def split: option.splits)

lemma downloadAndStore_ignores_status:
  assumes "Get env url = Inr resp" and "Get env' url = Inr (resp\<lparr>StatusCode := code\<rparr>)"
    and "Create env' = Create env" and "Copy env' = Copy env" and "Chmod env' = Chmod env"
  shows "downloadAndStore env' url dp st = downloadAndStore env url dp st"
proof -
  define st1 where "st1 = st\<lparr>requests := requests st @ [url],
                           live := live st @ [RespBody (length (requests st))]\<rparr>"
  have eqs: "os_Create env' = os_Create env" "io_Copy env' = io_Copy env"
    "os_Chmod env' = os_Chmod env"
    using assms(3-5) by (simp_all add: fun_eq_iff os_Create_def io_Copy_def os_Chmod_def)
  have gets: "http_Get env' url st =
      (Inr (resp\<lparr>StatusCode := code\<rparr>, RespBody (length (requests st))), st1)"
    "http_Get env url st = (Inr (resp, RespBody (length (requests st))), st1)"
    using assms(1,2) by (simp_all add: http_Get_def Let_def st1_def)
  show ?thesis
    unfolding downloadAndStore_def downloadAndStore_body_def gets eqs
    by (simp add: Let_def split: prod.splits sum.splits option.splits)
qed

text \<open>
  C5 does not hold of the code. \<^verbatim>\<open>downloadAndStore\<close> never reads
  \<^verbatim>\<open>resp.StatusCode\<close>: in the scenario every unknown URL is answered with status 404
  and the body \<open>Not Found\<close>, and the download of such a URL stores that body as an
  executable file and reports it as saved. The two requests of the loop in
  \<^verbatim>\<open>main\<close> check the status (lines 77 and 102).
\<close>

theorem non200_download_is_stored:
  "Get scenario ''https://example.com/dl/gone-v1.0.0-linux-amd64''
     = Inr \<lparr>StatusCode = 404, Body = ''Not Found'', BodyErr = None\<rparr>
   \<and> files (downloadAndStore scenario ''https://example.com/dl/gone-v1.0.0-linux-amd64''
            ''/home/u/.donut-utils'' home0) ''/home/u/.donut-utils/gone''
       = Some \<lparr>content = ''Not Found'', perm = 493\<rparr>
   \<and> stdout (downloadAndStore scenario ''https://example.com/dl/gone-v1.0.0-linux-amd64''
            ''/home/u/.donut-utils'' home0) = [FileSaved ''/home/u/.donut-utils/gone'']"
proof -
  have g: "Get scenario ''https://example.com/dl/gone-v1.0.0-linux-amd64''
     = Inr \<lparr>StatusCode = 404, Body = ''Not Found'', BodyErr = None\<rparr>"
    by code_simp
  have h: "0 \<le> Index (Base ''https://example.com/dl/gone-v1.0.0-linux-amd64'') ''-v''"
    "targetOf ''/home/u/.donut-utils'' ''https://example.com/dl/gone-v1.0.0-linux-amd64''
       \<notin> dirs home0"
    by code_simp+
  have out0: "stdout home0 = []" by (simp add: home0_def)
  have "BodyErr \<lparr>StatusCode = 404, Body = ''Not Found'', BodyErr = None\<rparr> = None"
    by simp
  from downloadAndStore_saved [OF g h scenario_faults(1) scenario_faults(2) this
      scenario_faults(3), unfolded gone_targetOf] g
  show ?thesis by (simp add: out0)
qed

section \<open>The answer to the question\<close>

lemma addToPath_requests [simp]: "requests (addToPath env dir st) = requests st"
  by (simp add: addToPath_def addToPath_body_def Let_def case_prod_beta
      split: sum.splits option.splits)

lemma addToPath_dirs [simp]: "dirs (addToPath env dir st) = dirs st"
  by (simp add: addToPath_def addToPath_body_def Let_def case_prod_beta
      split: sum.splits option.splits)

lemma pathStep_requests [simp]: "requests (pathStep env dp st) = requests st"
  by (simp add: pathStep_def)

lemma fold_downloadAndStore_requests:
  "requests (fold (\<lambda>app. downloadAndStore env (DownloadURL app) dp) apps st)
     = requests st @ map DownloadURL apps"
  by (induction apps arbitrary: st) simp_all

lemma downloadPhase_requests:
  "requests (downloadPhase env dp apps answer st) =
     requests st @ (if ToLower (MapLower env) (TrimSpace answer) = ''yes''
                    then map DownloadURL apps else [])"
  by (simp add: downloadPhase_def fold_downloadAndStore_requests)

lemma main_after_prompt:
  assumes "main_to_prompt env st0 = Inr (dp, apps, ds, st3)"
    and "ReadString (Stdin env) = Inr answer"
  shows "main env st0 =
     (Finished, run_deferred ds (pathStep env dp (downloadPhase env dp apps answer st3)))"
  using assms by (simp add: main_def)

lemma Inr_projr:
  "\<not> isl x \<Longrightarrow>
   x = Inr (fst (projr x), fst (snd (projr x)), fst (snd (snd (projr x))),
            snd (snd (snd (projr x))))"
  by (cases x) simp_all

lemma yes_examples:
  "ToLower f (TrimSpace (''y'' @ [CHR 0x0A])) \<noteq> ''yes''"
  "ToLower f (TrimSpace (''Yes please'' @ [CHR 0x0A])) \<noteq> ''yes''"
  "ToLower f (TrimSpace [CHR 0x0A]) \<noteq> ''yes''"
  "ToLower f (TrimSpace []) \<noteq> ''yes''"
  "ToLower f (TrimSpace (''  YeS '' @ [CHR 0x0D, CHR 0x0A])) = ''yes''"
  by code_simp+

lemma scenario_prompt_isr: "\<not> isl (main_to_prompt scenario home0)"
  by code_simp

lemma scenario_prompt_requests:
  "requests (snd (snd (snd (projr (main_to_prompt scenario home0))))) =
     [''https://api.github.com/repos/acme/tool'',
      ''https://api.github.com/repos/acme/tool/releases/latest'']"
  by code_simp

lemma scenario_prompt_apps:
  "fst (snd (projr (main_to_prompt scenario home0))) = [entryOf ''a tool'' toolAsset]"
  by code_simp

lemma declining_prompt_isr: "\<not> isl (main_to_prompt declining home0)"
  by code_simp

lemma declining_prompt_requests:
  "requests (snd (snd (snd (projr (main_to_prompt declining home0))))) =
     [''https://api.github.com/repos/acme/tool'',
      ''https://api.github.com/repos/acme/tool/releases/latest'']"
  by code_simp

lemma declining_prompt_apps:
  "fst (snd (projr (main_to_prompt declining home0))) = [entryOf ''a tool'' toolAsset]"
  by code_simp

text \<open>
  C3. Once \<^verbatim>\<open>main\<close> has asked its question and read a line, the URLs it requests
  from then on are the download URLs of all the applications offered, in their order,
  when the line, with surrounding white space removed and its letters put in lower
  case, is \<open>yes\<close>, and none otherwise. So the downloads run exactly for such a line
  (whenever there is something to download); for any other line the download step leaves
  the state as it was. The lines \<open>y\<close>, \<open>Yes please\<close> and the empty line do not start
  the downloads; \<open>YeS\<close> between blanks does.
\<close>

theorem confirmation_gate:
  "(main_to_prompt env st0 = Inr (dp, apps, ds, st3) \<and> ReadString (Stdin env) = Inr answer \<longrightarrow>
      requests (snd (main env st0)) =
        requests st3 @ (if ToLower (MapLower env) (TrimSpace answer) = ''yes''
                       then map DownloadURL apps else [])
      \<and> (apps \<noteq> [] \<longrightarrow>
           (requests (snd (main env st0)) \<noteq> requests st3
              \<longleftrightarrow> ToLower (MapLower env) (TrimSpace answer) = ''yes'')))
   \<and> (ToLower (MapLower env) (TrimSpace answer) \<noteq> ''yes'' \<longrightarrow>
        downloadPhase env dp apps answer st = st)
   \<and> (ToLower (MapLower env) (TrimSpace answer) = ''yes'' \<longrightarrow>
        downloadPhase env dp apps answer st =
          fold (\<lambda>app. downloadAndStore env (DownloadURL app) dp) apps st)
   \<and> ToLower f (TrimSpace (''y'' @ [CHR 0x0A])) \<noteq> ''yes''
   \<and> ToLower f (TrimSpace (''Yes please'' @ [CHR 0x0A])) \<noteq> ''yes''
   \<and> ToLower f (TrimSpace [CHR 0x0A]) \<noteq> ''yes''
   \<and> ToLower f (TrimSpace []) \<noteq> ''yes''
   \<and> ToLower f (TrimSpace (''  YeS '' @ [CHR 0x0D, CHR 0x0A])) = ''yes''"
proof (intro conjI impI)
  assume a: "main_to_prompt env st0 = Inr (dp, apps, ds, st3) \<and> ReadString (Stdin env) = Inr answer"
  then have m: "main env st0 =
     (Finished, run_deferred ds (pathStep env dp (downloadPhase env dp apps answer st3)))"
    by (intro main_after_prompt) simp_all
  then show r: "requests (snd (main env st0)) =
        requests st3 @ (if ToLower (MapLower env) (TrimSpace answer) = ''yes''
                       then map DownloadURL apps else [])"
    by (simp add: downloadPhase_requests)
  assume "apps \<noteq> []"
  with r show "requests (snd (main env st0)) \<noteq> requests st3
              \<longleftrightarrow> ToLower (MapLower env) (TrimSpace answer) = ''yes''"
    by simp
next
  assume "ToLower (MapLower env) (TrimSpace answer) \<noteq> ''yes''"
  then show "downloadPhase env dp apps answer st = st"
    by (simp add: downloadPhase_def)
next
  assume "ToLower (MapLower env) (TrimSpace answer) = ''yes''"
  then show "downloadPhase env dp apps answer st =
          fold (\<lambda>app. downloadAndStore env (DownloadURL app) dp) apps st"
    by (simp add: downloadPhase_def)
qed (rule yes_examples)+

lemma scenario_answer:
  "ReadString (Stdin scenario) = Inr (''yes'' @ [CHR 0x0A])"
  "ToLower (MapLower scenario) (TrimSpace (''yes'' @ [CHR 0x0A])) = ''yes''"
  by code_simp+

lemma declining_answer:
  "ReadString (Stdin declining) = Inr (''no'' @ [CHR 0x0A])"
  "ToLower (MapLower declining) (TrimSpace (''no'' @ [CHR 0x0A])) \<noteq> ''yes''"
  by code_simp+

theorem confirmation_gate_witness:
  "requests (snd (main scenario home0)) =
     [''https://api.github.com/repos/acme/tool'',
      ''https://api.github.com/repos/acme/tool/releases/latest'',
      ''https://example.com/dl/tool-v2.0.0-linux-amd64'']
   \<and> requests (snd (main declining home0)) =
     [''https://api.github.com/repos/acme/tool'',
      ''https://api.github.com/repos/acme/tool/releases/latest'']"
proof -
  have y: "main_to_prompt scenario home0 =
        Inr (fst (projr (main_to_prompt scenario home0)),
             fst (snd (projr (main_to_prompt scenario home0))),
             fst (snd (snd (projr (main_to_prompt scenario home0)))),
             snd (snd (snd (projr (main_to_prompt scenario home0)))))
      \<and> ReadString (Stdin scenario) = Inr (''yes'' @ [CHR 0x0A])"
    using Inr_projr [OF scenario_prompt_isr] scenario_answer(1) by simp
  have n: "main_to_prompt declining home0 =
        Inr (fst (projr (main_to_prompt declining home0)),
             fst (snd (projr (main_to_prompt declining home0))),
             fst (snd (snd (projr (main_to_prompt declining home0)))),
             snd (snd (snd (projr (main_to_prompt declining home0)))))
      \<and> ReadString (Stdin declining) = Inr (''no'' @ [CHR 0x0A])"
    using Inr_projr [OF declining_prompt_isr] declining_answer(1) by simp
  note a = confirmation_gate [where env = scenario and ?st0.0 = home0
      and answer = "''yes'' @ [CHR 0x0A]", THEN conjunct1, THEN mp, OF y, THEN conjunct1,
      unfolded scenario_prompt_requests scenario_prompt_apps scenario_answer(2)]
  note b = confirmation_gate [where env = declining and ?st0.0 = home0
      and answer = "''no'' @ [CHR 0x0A]", THEN conjunct1, THEN mp, OF n, THEN conjunct1,
      unfolded declining_prompt_requests declining_prompt_apps]
  from a b declining_answer(2) show ?thesis
    by (simp add: toolAsset_def)
qed

section \<open>Failures of the two requests\<close>

lemma skip_info_transport:
  assumes "TrimSpace line = repo" "repo \<noteq> []" "Get env (infoURL repo) = Inl e"
  shows "skipsWith (fetch_repo env line (apps, ds, st)) apps st (FailedGetRepoInfo e)"
  using assms by (simp add: fetch_repo_def Let_def http_Get_def)

lemma skip_info_status:
  assumes "TrimSpace line = repo" "repo \<noteq> []" "Get env (infoURL repo) = Inr r1"
    "StatusCode r1 \<noteq> 200"
  shows "skipsWith (fetch_repo env line (apps, ds, st)) apps st (Non200RepoInfo (StatusCode r1))"
  using assms by (simp add: fetch_repo_def Let_def http_Get_def)

lemma skip_info_read:
  assumes "TrimSpace line = repo" "repo \<noteq> []" "Get env (infoURL repo) = Inr r1"
    "StatusCode r1 = 200" "BodyErr r1 = Some e"
  shows "skipsWith (fetch_repo env line (apps, ds, st)) apps st (FailedReadRepoInfoBody e)"
  using assms by (simp add: fetch_repo_def Let_def http_Get_def ReadAll_def)

lemma skip_info_decode:
  assumes "TrimSpace line = repo" "repo \<noteq> []" "Get env (infoURL repo) = Inr r1"
    "StatusCode r1 = 200" "BodyErr r1 = None" "UnmarshalRepoInfo env (Body r1) = Inl e"
  shows "skipsWith (fetch_repo env line (apps, ds, st)) apps st (FailedUnmarshalRepoInfo e)"
  using assms by (simp add: fetch_repo_def Let_def http_Get_def ReadAll_def)

lemma skip_release_transport:
  assumes "TrimSpace line = repo" "repo \<noteq> []" "infoOK env repo r1 d"
    "Get env (releaseURL repo) = Inl e"
  shows "skipsWith (fetch_repo env line (apps, ds, st)) apps st (FailedGetLatestRelease e)"
  using assms by (simp add: fetch_repo_def Let_def http_Get_def ReadAll_def)

lemma skip_release_status:
  assumes "TrimSpace line = repo" "repo \<noteq> []" "infoOK env repo r1 d"
    "Get env (releaseURL repo) = Inr r2" "StatusCode r2 \<noteq> 200"
  shows "skipsWith (fetch_repo env line (apps, ds, st)) apps st (Non200Release (StatusCode r2))"
  using assms by (simp add: fetch_repo_def Let_def http_Get_def ReadAll_def)

lemma skip_release_read:
  assumes "TrimSpace line = repo" "repo \<noteq> []" "infoOK env repo r1 d"
    "Get env (releaseURL repo) = Inr r2" "StatusCode r2 = 200" "BodyErr r2 = Some e"
  shows "skipsWith (fetch_repo env line (apps, ds, st)) apps st (FailedReadReleaseBody e)"
  using assms by (simp add: fetch_repo_def Let_def http_Get_def ReadAll_def)

lemma skip_release_decode:
  assumes "TrimSpace line = repo" "repo \<noteq> []" "infoOK env repo r1 d"
    "Get env (releaseURL repo) = Inr r2" "StatusCode r2 = 200" "BodyErr r2 = None"
    "UnmarshalRelease env (Body r2) = Inl e"
  shows "skipsWith (fetch_repo env line (apps, ds, st)) apps st (FailedUnmarshalRelease e)"
  using assms by (simp add: fetch_repo_def Let_def http_Get_def ReadAll_def)

lemma fetch_loop_append:
  "fetch_loop env (earlier @ line # rest) acc =
     fetch_loop env rest (fetch_repo env line (fetch_loop env earlier acc))"
  by (simp add: fetch_loop_def)

lemma main_reaches_prompt:
  assumes "ReadFile env ReposList = Inr data" "Current env = Inr home"
    "MkdirAll env (Join [home, DownloadDir]) = None"
  shows "\<not> isl (main_to_prompt env st0)"
  using assms by (simp add: main_to_prompt_def os_MkdirAll_def Let_def case_prod_beta)

text \<open>
  C4. In a pass of the loop over the references, each of the eight failures (on the
  repository request or, after it went through, on the release request: a transport
  error, a status other than 200, an error reading the body, an error decoding it)
  prints its one line and leaves \<^verbatim>\<open>availableApps\<close>, the files and the directories
  as they were. The loop then goes on with the following references, whatever came
  before. No answer of the network makes \<^verbatim>\<open>main\<close> return before its question:
  once the list is read, the user found and the directory made, it gets there.
\<close>

theorem fetch_failure_is_skipped:
  "(TrimSpace line = repo \<and> repo \<noteq> [] \<longrightarrow>
      (Get env (infoURL repo) = Inl e \<longrightarrow>
         skipsWith (fetch_repo env line (apps, ds, st)) apps st (FailedGetRepoInfo e))
    \<and> (Get env (infoURL repo) = Inr r1 \<and> StatusCode r1 \<noteq> 200 \<longrightarrow>
         skipsWith (fetch_repo env line (apps, ds, st)) apps st
           (Non200RepoInfo (StatusCode r1)))
    \<and> (Get env (infoURL repo) = Inr r1 \<and> StatusCode r1 = 200 \<and> BodyErr r1 = Some e \<longrightarrow>
         skipsWith (fetch_repo env line (apps, ds, st)) apps st (FailedReadRepoInfoBody e))
    \<and> (Get env (infoURL repo) = Inr r1 \<and> StatusCode r1 = 200 \<and> BodyErr r1 = None
          \<and> UnmarshalRepoInfo env (Body r1) = Inl e \<longrightarrow>
         skipsWith (fetch_repo env line (apps, ds, st)) apps st (FailedUnmarshalRepoInfo e))
    \<and> (infoOK env repo r1 d \<and> Get env (releaseURL repo) = Inl e \<longrightarrow>
         skipsWith (fetch_repo env line (apps, ds, st)) apps st (FailedGetLatestRelease e))
    \<and> (infoOK env repo r1 d \<and> Get env (releaseURL repo) = Inr r2 \<and> StatusCode r2 \<noteq> 200 \<longrightarrow>
         skipsWith (fetch_repo env line (apps, ds, st)) apps st
           (Non200Release (StatusCode r2)))
    \<and> (infoOK env repo r1 d \<and> Get env (releaseURL repo) = Inr r2 \<and> StatusCode r2 = 200
          \<and> BodyErr r2 = Some e \<longrightarrow>
         skipsWith (fetch_repo env line (apps, ds, st)) apps st (FailedReadReleaseBody e))
    \<and> (infoOK env repo r1 d \<and> Get env (releaseURL repo) = Inr r2 \<and> StatusCode r2 = 200
          \<and> BodyErr r2 = None \<and> UnmarshalRelease env (Body r2) = Inl e \<longrightarrow>
         skipsWith (fetch_repo env line (apps, ds, st)) apps st (FailedUnmarshalRelease e)))
   \<and> fetch_loop env (earlier @ line # rest) acc =
       fetch_loop env rest (fetch_repo env line (fetch_loop env earlier acc))
   \<and> (ReadFile env ReposList = Inr data \<and> Current env = Inr home
        \<and> MkdirAll env (Join [home, DownloadDir]) = None \<longrightarrow>
       \<not> isl (main_to_prompt env st0))"
proof (intro conjI impI; (elim conjE)?)
  show "fetch_loop env (earlier @ line # rest) acc =
       fetch_loop env rest (fetch_repo env line (fetch_loop env earlier acc))"
    by (rule fetch_loop_append)
qed (simp_all only: skip_info_transport skip_info_status skip_info_read skip_info_decode
    skip_release_transport skip_release_status skip_release_read skip_release_decode
    main_reaches_prompt not_False_eq_True)

theorem fetch_failure_is_skipped_witness:
  "skipsWith (fetch_repo flaky ''a/transport'' ([], [], home0)) [] home0 (FailedGetRepoInfo ''dial tcp: i/o timeout'')
   \<and> skipsWith (fetch_repo flaky ''a/status'' ([], [], home0)) [] home0 (Non200RepoInfo 404)
   \<and> skipsWith (fetch_repo flaky ''a/read'' ([], [], home0)) [] home0 (FailedReadRepoInfoBody ''unexpected EOF'')
   \<and> skipsWith (fetch_repo flaky ''a/json'' ([], [], home0)) [] home0 (FailedUnmarshalRepoInfo ''invalid character'')
   \<and> skipsWith (fetch_repo flaky ''b/transport'' ([], [], home0)) [] home0 (FailedGetLatestRelease ''dial tcp: i/o timeout'')
   \<and> skipsWith (fetch_repo flaky ''b/status'' ([], [], home0)) [] home0 (Non200Release 500)
   \<and> skipsWith (fetch_repo flaky ''b/read'' ([], [], home0)) [] home0 (FailedReadReleaseBody ''unexpected EOF'')
   \<and> skipsWith (fetch_repo flaky ''b/json'' ([], [], home0)) [] home0 (FailedUnmarshalRelease ''invalid character'')
   \<and> fst (fetch_loop flaky flakyList ([], [], home0)) = [entryOf ''a tool'' toolAsset]
   \<and> \<not> isl (main_to_prompt flaky home0)"
proof -
  have t1: "TrimSpace ''a/transport'' = ''a/transport'' \<and> ''a/transport'' \<noteq> []"
    by code_simp
  have h1: "Get flaky (infoURL ''a/transport'') = Inl ''dial tcp: i/o timeout''"
    by code_simp
  note s1 = fetch_failure_is_skipped [where env = flaky and line = "''a/transport''" and repo = "''a/transport''"
      and apps = "[]" and ds = "[]" and st = home0 and e = "''dial tcp: i/o timeout''",
      THEN conjunct1, THEN mp, OF t1, THEN conjunct1, THEN mp, OF h1]
  have t2: "TrimSpace ''a/status'' = ''a/status'' \<and> ''a/status'' \<noteq> []"
    by code_simp
  have h2: "Get flaky (infoURL ''a/status'') = Inr \<lparr>StatusCode = 404, Body = ''Not Found'', BodyErr = None\<rparr> \<and> StatusCode \<lparr>StatusCode = 404, Body = ''Not Found'', BodyErr = None\<rparr> \<noteq> 200"
    by code_simp
  note s2 = fetch_failure_is_skipped [where env = flaky and line = "''a/status''" and repo = "''a/status''"
      and apps = "[]" and ds = "[]" and st = home0 and ?r1.0 = "\<lparr>StatusCode = 404, Body = ''Not Found'', BodyErr = None\<rparr>",
      THEN conjunct1, THEN mp, OF t2, THEN conjunct2, THEN conjunct1, THEN mp, OF h2]
  have t3: "TrimSpace ''a/read'' = ''a/read'' \<and> ''a/read'' \<noteq> []"
    by code_simp
  have h3: "Get flaky (infoURL ''a/read'') = Inr \<lparr>StatusCode = 200, Body = ''{desc'', BodyErr = Some ''unexpected EOF''\<rparr> \<and> StatusCode \<lparr>StatusCode = 200, Body = ''{desc'', BodyErr = Some ''unexpected EOF''\<rparr> = 200 \<and> BodyErr \<lparr>StatusCode = 200, Body = ''{desc'', BodyErr = Some ''unexpected EOF''\<rparr> = Some ''unexpected EOF''"
    by code_simp
  note s3 = fetch_failure_is_skipped [where env = flaky and line = "''a/read''" and repo = "''a/read''"
      and apps = "[]" and ds = "[]" and st = home0 and e = "''unexpected EOF''" and ?r1.0 = "\<lparr>StatusCode = 200, Body = ''{desc'', BodyErr = Some ''unexpected EOF''\<rparr>",
      THEN conjunct1, THEN mp, OF t3, THEN conjunct2, THEN conjunct2, THEN conjunct1, THEN mp, OF h3]
  have t4: "TrimSpace ''a/json'' = ''a/json'' \<and> ''a/json'' \<noteq> []"
    by code_simp
  have h4: "Get flaky (infoURL ''a/json'') = Inr \<lparr>StatusCode = 200, Body = ''<html>'', BodyErr = None\<rparr> \<and> StatusCode \<lparr>StatusCode = 200, Body = ''<html>'', BodyErr = None\<rparr> = 200 \<and> BodyErr \<lparr>StatusCode = 200, Body = ''<html>'', BodyErr = None\<rparr> = None \<and> UnmarshalRepoInfo flaky (Body \<lparr>StatusCode = 200, Body = ''<html>'', BodyErr = None\<rparr>) = Inl ''invalid character''"
    by code_simp
  note s4 = fetch_failure_is_skipped [where env = flaky and line = "''a/json''" and repo = "''a/json''"
      and apps = "[]" and ds = "[]" and st = home0 and e = "''invalid character''" and ?r1.0 = "\<lparr>StatusCode = 200, Body = ''<html>'', BodyErr = None\<rparr>",
      THEN conjunct1, THEN mp, OF t4, THEN conjunct2, THEN conjunct2, THEN conjunct2, THEN conjunct1, THEN mp, OF h4]
  have t5: "TrimSpace ''b/transport'' = ''b/transport'' \<and> ''b/transport'' \<noteq> []"
    by code_simp
  have h5: "infoOK flaky ''b/transport'' \<lparr>StatusCode = 200, Body = ''{description}'', BodyErr = None\<rparr> ''a tool'' \<and> Get flaky (releaseURL ''b/transport'') = Inl ''dial tcp: i/o timeout''"
    by code_simp
  note s5 = fetch_failure_is_skipped [where env = flaky and line = "''b/transport''" and repo = "''b/transport''"
      and apps = "[]" and ds = "[]" and st = home0 and e = "''dial tcp: i/o timeout''" and ?r1.0 = "\<lparr>StatusCode = 200, Body = ''{description}'', BodyErr = None\<rparr>" and d = "''a tool''",
      THEN conjunct1, THEN mp, OF t5, THEN conjunct2, THEN conjunct2, THEN conjunct2, THEN conjunct2, THEN conjunct1, THEN mp, OF h5]
  have t6: "TrimSpace ''b/status'' = ''b/status'' \<and> ''b/status'' \<noteq> []"
    by code_simp
  have h6: "infoOK flaky ''b/status'' \<lparr>StatusCode = 200, Body = ''{description}'', BodyErr = None\<rparr> ''a tool'' \<and> Get flaky (releaseURL ''b/status'') = Inr \<lparr>StatusCode = 500, Body = ''Server Error'', BodyErr = None\<rparr> \<and> StatusCode \<lparr>StatusCode = 500, Body = ''Server Error'', BodyErr = None\<rparr> \<noteq> 200"
    by code_simp
  note s6 = fetch_failure_is_skipped [where env = flaky and line = "''b/status''" and repo = "''b/status''"
      and apps = "[]" and ds = "[]" and st = home0 and ?r1.0 = "\<lparr>StatusCode = 200, Body = ''{description}'', BodyErr = None\<rparr>" and d = "''a tool''" and ?r2.0 = "\<lparr>StatusCode = 500, Body = ''Server Error'', BodyErr = None\<rparr>",
      THEN conjunct1, THEN mp, OF t6, THEN conjunct2, THEN conjunct2, THEN conjunct2, THEN conjunct2, THEN conjunct2, THEN conjunct1, THEN mp, OF h6]
  have t7: "TrimSpace ''b/read'' = ''b/read'' \<and> ''b/read'' \<noteq> []"
    by code_simp
  have h7: "infoOK flaky ''b/read'' \<lparr>StatusCode = 200, Body = ''{description}'', BodyErr = None\<rparr> ''a tool'' \<and> Get flaky (releaseURL ''b/read'') = Inr \<lparr>StatusCode = 200, Body = ''{ass'', BodyErr = Some ''unexpected EOF''\<rparr> \<and> StatusCode \<lparr>StatusCode = 200, Body = ''{ass'', BodyErr = Some ''unexpected EOF''\<rparr> = 200 \<and> BodyErr \<lparr>StatusCode = 200, Body = ''{ass'', BodyErr = Some ''unexpected EOF''\<rparr> = Some ''unexpected EOF''"
    by code_simp
  note s7 = fetch_failure_is_skipped [where env = flaky and line = "''b/read''" and repo = "''b/read''"
      and apps = "[]" and ds = "[]" and st = home0 and e = "''unexpected EOF''" and ?r1.0 = "\<lparr>StatusCode = 200, Body = ''{description}'', BodyErr = None\<rparr>" and d = "''a tool''" and ?r2.0 = "\<lparr>StatusCode = 200, Body = ''{ass'', BodyErr = Some ''unexpected EOF''\<rparr>",
      THEN conjunct1, THEN mp, OF t7, THEN conjunct2, THEN conjunct2, THEN conjunct2, THEN conjunct2, THEN conjunct2, THEN conjunct2, THEN conjunct1, THEN mp, OF h7]
  have t8: "TrimSpace ''b/json'' = ''b/json'' \<and> ''b/json'' \<noteq> []"
    by code_simp
  have h8: "infoOK flaky ''b/json'' \<lparr>StatusCode = 200, Body = ''{description}'', BodyErr = None\<rparr> ''a tool'' \<and> Get flaky (releaseURL ''b/json'') = Inr \<lparr>StatusCode = 200, Body = ''<html>'', BodyErr = None\<rparr> \<and> StatusCode \<lparr>StatusCode = 200, Body = ''<html>'', BodyErr = None\<rparr> = 200 \<and> BodyErr \<lparr>StatusCode = 200, Body = ''<html>'', BodyErr = None\<rparr> = None \<and> UnmarshalRelease flaky (Body \<lparr>StatusCode = 200, Body = ''<html>'', BodyErr = None\<rparr>) = Inl ''invalid character''"
    by code_simp
  note s8 = fetch_failure_is_skipped [where env = flaky and line = "''b/json''" and repo = "''b/json''"
      and apps = "[]" and ds = "[]" and st = home0 and e = "''invalid character''" and ?r1.0 = "\<lparr>StatusCode = 200, Body = ''{description}'', BodyErr = None\<rparr>" and d = "''a tool''" and ?r2.0 = "\<lparr>StatusCode = 200, Body = ''<html>'', BodyErr = None\<rparr>",
      THEN conjunct1, THEN mp, OF t8, THEN conjunct2, THEN conjunct2, THEN conjunct2, THEN conjunct2, THEN conjunct2, THEN conjunct2, THEN conjunct2, THEN mp, OF h8]
  have g: "ReadFile flaky ReposList = Inr (concat (map (\<lambda>l. l @ [CHR 0x0A]) flakyList))
      \<and> Current flaky = Inr ''/home/u''
      \<and> MkdirAll flaky (Join [''/home/u'', DownloadDir]) = None"
    by code_simp
  note p = fetch_failure_is_skipped [where env = flaky and home = "''/home/u''"
      and data = "concat (map (\<lambda>l. l @ [CHR 0x0A]) flakyList)" and ?st0.0 = home0,
      THEN conjunct2, THEN conjunct2, THEN mp, OF g]
  have l: "fst (fetch_loop flaky flakyList ([], [], home0)) = [entryOf ''a tool'' toolAsset]"
    by code_simp
  from s1 s2 s3 s4 s5 s6 s7 s8 l p show ?thesis
    by simp
qed

section \<open>Open response bodies\<close>

lemma run_deferred_live: "live (run_deferred ds st) = fold remove1 ds (live st)"
  by (induction ds arbitrary: st) simp_all

lemma fold_remove1_fresh:
  "distinct ds \<Longrightarrow> set ds \<inter> set xs = {} \<Longrightarrow> fold remove1 ds (xs @ rev ds) = xs"
proof (induction ds arbitrary: xs)
  case Nil
  then show ?case by simp
next
  case (Cons d ds)
  then have "remove1 d (xs @ rev ds @ [d]) = xs @ rev ds"
    by (simp add: remove1_append)
  with Cons show ?case by simp
qed

lemma downloadAndStore_body_live:
  "live (snd (downloadAndStore_body env url dp st)) =
     live st @ rev (fst (downloadAndStore_body env url dp st))
   \<and> set (fst (downloadAndStore_body env url dp st))
       \<subseteq> {RespBody (length (requests st)), FileHandle (targetOf dp url)}
   \<and> distinct (fst (downloadAndStore_body env url dp st))"
  by (simp add: downloadAndStore_body_def Let_def http_Get_def
      os_Create_def io_Copy_def os_Chmod_def
      split: sum.splits option.splits)

lemma downloadAndStore_releases:
  assumes "RespBody (length (requests st)) \<notin> set (live st)"
    and "FileHandle (targetOf dp url) \<notin> set (live st)"
  shows "live (downloadAndStore env url dp st) = live st"
proof -
  obtain ds st' where b: "downloadAndStore_body env url dp st = (ds, st')"
    by (cases "downloadAndStore_body env url dp st") blast
  from downloadAndStore_body_live [of env url dp st] b
  have l: "live st' = live st @ rev ds"
    and s: "set ds \<subseteq> {RespBody (length (requests st)), FileHandle (targetOf dp url)}"
    and d: "distinct ds" by simp_all
  from s assms have "set ds \<inter> set (live st) = {}" by auto
  with d l show ?thesis
    by (simp add: downloadAndStore_def b run_deferred_live fold_remove1_fresh)
qed

lemma addToPath_releases:
  assumes "\<forall>p. FileHandle p \<notin> set (live st)"
  shows "live (addToPath env dir st) = live st"
  using assms
  by (simp add: addToPath_def addToPath_body_def Let_def os_OpenFile_def file_WriteString_def
      remove1_append split: sum.splits option.splits)

lemma open_after_status:
  "live (snd (snd (fetch_repo flaky ''a/status'' ([], [], home0)))) = [RespBody 0]"
  by code_simp

lemma none_deferred_after_status:
  "fst (snd (fetch_repo flaky ''a/status'' ([], [], home0))) = []"
  by code_simp

lemma open_after_main: "live (snd (main statusOnly home0)) = [RespBody 0]"
  by code_simp

lemma open_after_good_pass:
  "live (snd (snd (fetch_repo scenario ''acme/tool'' ([], [], home0))))
     = [RespBody 0, RespBody 1]"
  by code_simp

lemma deferred_after_good_pass:
  "fst (snd (fetch_repo scenario ''acme/tool'' ([], [], home0))) = [RespBody 1, RespBody 0]"
  by code_simp

text \<open>
  C9 does not hold of the loop in \<^verbatim>\<open>main\<close>. A response with a status other than
  200 leaves the pass at lines 79 and 104, before the \<^verbatim>\<open>defer\<close> of lines 81 and 107:
  its body is open after the pass, nothing is deferred for it, and it is still open when
  \<^verbatim>\<open>main\<close> has returned. The bodies the loop does defer are closed when
  \<^verbatim>\<open>main\<close> returns, not at the end of the pass: after the pass over a good
  reference both of its bodies are open. (\<^verbatim>\<open>downloadAndStore\<close> and
  \<^verbatim>\<open>addToPath\<close> do release what they open, by the two lemmas above.)
\<close>

theorem response_body_left_open:
  "live (snd (snd (fetch_repo flaky ''a/status'' ([], [], home0)))) = [RespBody 0]
   \<and> fst (snd (fetch_repo flaky ''a/status'' ([], [], home0))) = []
   \<and> live (snd (main statusOnly home0)) = [RespBody 0]
   \<and> live (snd (snd (fetch_repo scenario ''acme/tool'' ([], [], home0))))
       = [RespBody 0, RespBody 1]
   \<and> fst (snd (fetch_repo scenario ''acme/tool'' ([], [], home0))) = [RespBody 1, RespBody 0]"
  by (intro conjI open_after_status none_deferred_after_status open_after_main
      open_after_good_pass deferred_after_good_pass)

section \<open>The failures that end the run\<close>

lemma fetch_repo_frame:
  "files (snd (snd (fetch_repo env line (apps, ds, st)))) = files st
   \<and> dirs (snd (snd (fetch_repo env line (apps, ds, st)))) = dirs st"
  by (simp add: fetch_repo_def Let_def case_prod_beta split: sum.splits)

lemma fetch_loop_frame:
  "files (snd (snd (fetch_loop env repos acc))) = files (snd (snd acc))
   \<and> dirs (snd (snd (fetch_loop env repos acc))) = dirs (snd (snd acc))"
proof (induction repos arbitrary: acc)
  case Nil
  then show ?case by (simp add: fetch_loop_def)
next
  case (Cons line repos)
  obtain apps ds st where acc: "acc = (apps, ds, st)" by (cases acc) auto
  from Cons [of "fetch_repo env line acc"] fetch_repo_frame [of env line apps ds st]
  show ?case by (simp add: fetch_loop_def acc)
qed

lemma listApps_frame [simp]:
  "files (listApps apps st) = files st" "dirs (listApps apps st) = dirs st"
  "requests (listApps apps st) = requests st" "live (listApps apps st) = live st"
proof -
  have "\<And>st. files (fold (\<lambda>(i, app). println (AppLine (i + 1) (Name app) (Description app))) xs st) = files st
    \<and> dirs (fold (\<lambda>(i, app). println (AppLine (i + 1) (Name app) (Description app))) xs st) = dirs st
    \<and> requests (fold (\<lambda>(i, app). println (AppLine (i + 1) (Name app) (Description app))) xs st) = requests st
    \<and> live (fold (\<lambda>(i, app). println (AppLine (i + 1) (Name app) (Description app))) xs st) = live st"
    for xs :: "(nat \<times> appInfo) list"
    by (induction xs) (simp_all add: case_prod_beta)
  then show "files (listApps apps st) = files st" "dirs (listApps apps st) = dirs st"
    "requests (listApps apps st) = requests st" "live (listApps apps st) = live st"
    by (simp_all add: listApps_def)
qed

lemma main_to_prompt_files:
  "main_to_prompt env st0 = Inr (dp, apps, ds, st3) \<Longrightarrow> files st3 = files st0"
  using fetch_loop_frame [of env]
  by (auto simp: main_to_prompt_def os_MkdirAll_def Let_def case_prod_beta
      split: sum.splits option.splits)

lemma main_return_39:
  "ReadFile env ReposList = Inl e \<Longrightarrow>
   main env st0 = (Returned 39, println (FailedReadReposList e) (println Intro (println Banner st0)))"
  by (simp add: main_def main_to_prompt_def)

lemma main_return_45:
  "ReadFile env ReposList = Inr data \<Longrightarrow> Current env = Inl e \<Longrightarrow>
   main env st0 = (Returned 45, println (FailedGetCurrentUser e) (println Intro (println Banner st0)))"
  by (simp add: main_def main_to_prompt_def)

lemma main_return_52:
  "ReadFile env ReposList = Inr data \<Longrightarrow> Current env = Inr home \<Longrightarrow>
   MkdirAll env (Join [home, DownloadDir]) = Some e \<Longrightarrow>
   main env st0 =
     (Returned 52, println (FailedCreateDownloadDir e) (println Intro (println Banner st0)))"
  by (simp add: main_def main_to_prompt_def os_MkdirAll_def)

lemma main_return_149:
  "main_to_prompt env st0 = Inr (dp, apps, ds, st3) \<Longrightarrow> ReadString (Stdin env) = Inl e \<Longrightarrow>
   main env st0 = (Returned 149, run_deferred ds (println (FailedReadInput e) st3))"
  by (simp add: main_def)

lemma main_finished_iff:
  "fst (main env st0) = Finished \<longleftrightarrow>
     (\<exists>data home answer. ReadFile env ReposList = Inr data \<and> Current env = Inr home
        \<and> MkdirAll env (Join [home, DownloadDir]) = None
        \<and> ReadString (Stdin env) = Inr answer)"
proof (cases "ReadFile env ReposList")
  case (Inl e)
  then show ?thesis by (simp add: main_return_39)
next
  case data: (Inr data)
  show ?thesis
  proof (cases "Current env")
    case (Inl e)
    with data show ?thesis by (simp add: main_return_45)
  next
    case home: (Inr home)
    show ?thesis
    proof (cases "MkdirAll env (Join [home, DownloadDir])")
      case (Some e)
      with data home show ?thesis by (simp add: main_return_52)
    next
      case None
      with data home main_reaches_prompt [of env data home st0]
      obtain dp apps ds st3 where p: "main_to_prompt env st0 = Inr (dp, apps, ds, st3)"
        by (cases "main_to_prompt env st0") auto
      show ?thesis
      proof (cases "ReadString (Stdin env)")
        case (Inl e)
        with data home None p show ?thesis by (simp add: main_return_149)
      next
        case (Inr answer)
        with data home None p show ?thesis by (simp add: main_after_prompt)
      qed
    qed
  qed
qed

lemma main_exits:
  "fst (main env st0) \<in> {Returned 39, Returned 45, Returned 52, Returned 149, Finished}"
  by (simp add: main_def main_to_prompt_def os_MkdirAll_def Let_def case_prod_beta
      split: sum.splits option.splits)

lemma main_no_user:
  assumes "Current env = Inl e"
  shows "fst (main env st0) \<in> {Returned 39, Returned 45}
     \<and> requests (snd (main env st0)) = requests st0 \<and> files (snd (main env st0)) = files st0
     \<and> dirs (snd (main env st0)) = dirs st0"
  using assms by (cases "ReadFile env ReposList") (simp_all add: main_return_39 main_return_45)

lemma main_return_149_frame:
  assumes "main_to_prompt env st0 = Inr (dp, apps, ds, st3)" "ReadString (Stdin env) = Inl e"
  shows "files (snd (main env st0)) = files st0 \<and> requests (snd (main env st0)) = requests st3
     \<and> stdout (snd (main env st0)) = stdout st3 @ [FailedReadInput e]"
  using main_return_149 [OF assms] main_to_prompt_files [OF assms(1)] by simp

text \<open>
  C6. \<^verbatim>\<open>main\<close> ends at one of its four \<^verbatim>\<open>return\<close> statements or at its last
  line, and it gets to its last line exactly when the list file was read, the current user
  was found, the download directory was made and a line of input was read. Each of the
  four failures prints its message and ends the run there: for the first three nothing
  but the banner, the introduction and the message has happened; a failed read of the
  answer comes after the requests of the loop, and neither a download nor a change of a
  file follows it. A current user that cannot be found always ends the run, at line 39
  or 45, before any request and any change of the file system; so \<^verbatim>\<open>addToPath\<close>,
  which asks for the user again at line 222, is only ever reached with a user that was
  found.
\<close>

theorem fatal_failures:
  "fst (main env st0) \<in> {Returned 39, Returned 45, Returned 52, Returned 149, Finished}
   \<and> (fst (main env st0) = Finished \<longleftrightarrow>
        (\<exists>data home answer. ReadFile env ReposList = Inr data \<and> Current env = Inr home
           \<and> MkdirAll env (Join [home, DownloadDir]) = None
           \<and> ReadString (Stdin env) = Inr answer))
   \<and> (ReadFile env ReposList = Inl e \<longrightarrow>
        main env st0 =
          (Returned 39, println (FailedReadReposList e) (println Intro (println Banner st0))))
   \<and> (ReadFile env ReposList = Inr data \<and> Current env = Inl e \<longrightarrow>
        main env st0 =
          (Returned 45, println (FailedGetCurrentUser e) (println Intro (println Banner st0))))
   \<and> (ReadFile env ReposList = Inr data \<and> Current env = Inr home
        \<and> MkdirAll env (Join [home, DownloadDir]) = Some e \<longrightarrow>
        main env st0 =
          (Returned 52,
           println (FailedCreateDownloadDir e) (println Intro (println Banner st0))))
   \<and> (main_to_prompt env st0 = Inr (dp, apps, ds, st3) \<and> ReadString (Stdin env) = Inl e \<longrightarrow>
        main env st0 = (Returned 149, run_deferred ds (println (FailedReadInput e) st3))
        \<and> files (snd (main env st0)) = files st0
        \<and> requests (snd (main env st0)) = requests st3
        \<and> stdout (snd (main env st0)) = stdout st3 @ [FailedReadInput e])
   \<and> (Current env = Inl e \<longrightarrow>
        fst (main env st0) \<in> {Returned 39, Returned 45}
        \<and> requests (snd (main env st0)) = requests st0
        \<and> files (snd (main env st0)) = files st0
        \<and> dirs (snd (main env st0)) = dirs st0)"
proof (intro conjI impI)
  show "fst (main env st0) \<in> {Returned 39, Returned 45, Returned 52, Returned 149, Finished}"
    by (rule main_exits)
  show "fst (main env st0) = Finished \<longleftrightarrow>
        (\<exists>data home answer. ReadFile env ReposList = Inr data \<and> Current env = Inr home
           \<and> MkdirAll env (Join [home, DownloadDir]) = None
           \<and> ReadString (Stdin env) = Inr answer)"
    by (rule main_finished_iff)
next
  assume "ReadFile env ReposList = Inl e"
  then show "main env st0 =
          (Returned 39, println (FailedReadReposList e) (println Intro (println Banner st0)))"
    by (rule main_return_39)
next
  assume "ReadFile env ReposList = Inr data \<and> Current env = Inl e"
  then show "main env st0 =
          (Returned 45, println (FailedGetCurrentUser e) (println Intro (println Banner st0)))"
    by (simp add: main_return_45)
next
  assume "ReadFile env ReposList = Inr data \<and> Current env = Inr home
        \<and> MkdirAll env (Join [home, DownloadDir]) = Some e"
  then show "main env st0 =
          (Returned 52,
           println (FailedCreateDownloadDir e) (println Intro (println Banner st0)))"
    by (simp add: main_return_52)
next
  assume a: "main_to_prompt env st0 = Inr (dp, apps, ds, st3) \<and> ReadString (Stdin env) = Inl e"
  then show "main env st0 = (Returned 149, run_deferred ds (println (FailedReadInput e) st3))"
    by (simp add: main_return_149)
  from a main_return_149_frame [of env st0 dp apps ds st3 e]
  show "files (snd (main env st0)) = files st0"
    and "requests (snd (main env st0)) = requests st3"
    and "stdout (snd (main env st0)) = stdout st3 @ [FailedReadInput e]"
    by simp_all
next
  assume "Current env = Inl e"
  from main_no_user [OF this, of st0]
  show "fst (main env st0) \<in> {Returned 39, Returned 45}"
    and "requests (snd (main env st0)) = requests st0"
    and "files (snd (main env st0)) = files st0"
    and "dirs (snd (main env st0)) = dirs st0"
    by simp_all
qed

lemma noAnswer_prompt_isr: "\<not> isl (main_to_prompt noAnswer home0)"
  by code_simp

theorem fatal_failures_witness:
  "main noList home0 =
     (Returned 39, println (FailedReadReposList ''no such file or directory'')
                     (println Intro (println Banner home0)))
   \<and> main noUser home0 =
     (Returned 45, println (FailedGetCurrentUser ''user: Current requires cgo or $USER set'')
                     (println Intro (println Banner home0)))
   \<and> requests (snd (main noUser home0)) = requests home0
   \<and> main noDir home0 =
     (Returned 52, println (FailedCreateDownloadDir ''permission denied'')
                     (println Intro (println Banner home0)))
   \<and> fst (main noAnswer home0) = Returned 149
   \<and> files (snd (main noAnswer home0)) = files home0
   \<and> fst (main scenario home0) = Finished"
proof -
  have h39: "ReadFile noList ReposList = Inl ''no such file or directory''"
    by code_simp
  note w39 = fatal_failures [where env = noList and ?st0.0 = home0
      and e = "''no such file or directory''",
      THEN conjunct2, THEN conjunct2, THEN conjunct1, THEN mp, OF h39]
  have h45: "ReadFile noUser ReposList = Inr (''acme/tool'' @ [CHR 0x0A])
      \<and> Current noUser = Inl ''user: Current requires cgo or $USER set''"
    by code_simp
  note w45 = fatal_failures [where env = noUser and ?st0.0 = home0
      and data = "''acme/tool'' @ [CHR 0x0A]"
      and e = "''user: Current requires cgo or $USER set''",
      THEN conjunct2, THEN conjunct2, THEN conjunct2, THEN conjunct1, THEN mp, OF h45]
  note wu = fatal_failures [where env = noUser and ?st0.0 = home0
      and e = "''user: Current requires cgo or $USER set''",
      THEN conjunct2, THEN conjunct2, THEN conjunct2, THEN conjunct2, THEN conjunct2,
      THEN conjunct2, THEN mp, OF h45 [THEN conjunct2]]
  have h52: "ReadFile noDir ReposList = Inr (''acme/tool'' @ [CHR 0x0A])
      \<and> Current noDir = Inr ''/home/u''
      \<and> MkdirAll noDir (Join [''/home/u'', DownloadDir]) = Some ''permission denied''"
    by code_simp
  note w52 = fatal_failures [where env = noDir and ?st0.0 = home0
      and data = "''acme/tool'' @ [CHR 0x0A]" and home = "''/home/u''"
      and e = "''permission denied''",
      THEN conjunct2, THEN conjunct2, THEN conjunct2, THEN conjunct2, THEN conjunct1,
      THEN mp, OF h52]
  have "ReadString (Stdin noAnswer) = Inl ''EOF''"
    by code_simp
  with Inr_projr [OF noAnswer_prompt_isr]
  have h149: "main_to_prompt noAnswer home0 =
        Inr (fst (projr (main_to_prompt noAnswer home0)),
             fst (snd (projr (main_to_prompt noAnswer home0))),
             fst (snd (snd (projr (main_to_prompt noAnswer home0)))),
             snd (snd (snd (projr (main_to_prompt noAnswer home0)))))
      \<and> ReadString (Stdin noAnswer) = Inl ''EOF''"
    by simp
  note w149 = fatal_failures [where env = noAnswer and ?st0.0 = home0 and e = "''EOF''",
      THEN conjunct2, THEN conjunct2, THEN conjunct2, THEN conjunct2, THEN conjunct2,
      THEN conjunct1, THEN mp, OF h149]
  have "ReadFile scenario ReposList = Inr (''acme/tool'' @ [CHR 0x0A])
      \<and> Current scenario = Inr ''/home/u''
      \<and> MkdirAll scenario (Join [''/home/u'', DownloadDir]) = None
      \<and> ReadString (Stdin scenario) = Inr (''yes'' @ [CHR 0x0A])"
    by code_simp
  then have "\<exists>data home answer. ReadFile scenario ReposList = Inr data
      \<and> Current scenario = Inr home \<and> MkdirAll scenario (Join [home, DownloadDir]) = None
      \<and> ReadString (Stdin scenario) = Inr answer"
    by blast
  note wfin = fatal_failures [where env = scenario and ?st0.0 = home0,
      THEN conjunct2, THEN conjunct1, THEN iffD2, OF this]
  from w149 have exit149: "fst (main noAnswer home0) = Returned 149"
    by simp
  note files149 = w149 [THEN conjunct2, THEN conjunct1]
  from w39 w45 wu w52 exit149 files149 wfin show ?thesis by simp
qed

section \<open>The line added to the shell profile\<close>

lemma addToPath_unsupported:
  "shellrcFor (SHELL env) = None \<Longrightarrow>
   addToPath env dir st = println (PathLine dir) (println UnsupportedShell st)"
  by (simp add: addToPath_def addToPath_body_def Let_def split: if_splits)

lemma addToPath_appends:
  assumes "shellrcFor (SHELL env) = Some rc" "Current env = Inr home"
    "files st (Join [home, rc]) = Some f" "OpenFile env (Join [home, rc]) = None"
    "WriteString env (Join [home, rc]) = None"
  shows "files (addToPath env dir st) =
           (files st)(Join [home, rc] \<mapsto> f\<lparr>content := content f @ exportLine dir\<rparr>)
     \<and> stdout (addToPath env dir st) =
           stdout st @ [AddedToPath rc, UpdateSession, SourceCmd rc]"
  using assms
  by (simp add: addToPath_def addToPath_body_def Let_def os_OpenFile_def
      file_WriteString_def)

lemma addToPath_no_profile:
  assumes "shellrcFor (SHELL env) = Some rc" "Current env = Inr home"
    "files st (Join [home, rc]) = None"
  shows "addToPath env dir st = println (FailedOpenShellrc ''no such file or directory'') st"
  using assms
  by (simp add: addToPath_def addToPath_body_def Let_def os_OpenFile_def)

lemma addToPath_open_fails:
  assumes "shellrcFor (SHELL env) = Some rc" "Current env = Inr home"
    "files st (Join [home, rc]) = Some f" "OpenFile env (Join [home, rc]) = Some e"
  shows "addToPath env dir st = println (FailedOpenShellrc e) st"
  using assms
  by (simp add: addToPath_def addToPath_body_def Let_def os_OpenFile_def)

lemma shellrcFor_cases:
  "shellrcFor shell = Some rc \<Longrightarrow> rc = ''.bashrc'' \<or> rc = ''.zshrc''"
  by (simp split: if_splits)

lemma addToPath_twice:
  assumes "shellrcFor (SHELL env) = Some rc" "Current env = Inr home"
    "files st (Join [home, rc]) = Some f" "OpenFile env (Join [home, rc]) = None"
    "WriteString env (Join [home, rc]) = None"
  shows "files (addToPath env dir (addToPath env dir st)) =
           (files st)(Join [home, rc] \<mapsto>
              f\<lparr>content := content f @ exportLine dir @ exportLine dir\<rparr>)"
proof -
  from addToPath_appends [OF assms, of dir]
  have one: "files (addToPath env dir st) =
           (files st)(Join [home, rc] \<mapsto> f\<lparr>content := content f @ exportLine dir\<rparr>)"
    by simp
  then have "files (addToPath env dir st) (Join [home, rc]) =
      Some (f\<lparr>content := content f @ exportLine dir\<rparr>)"
    by simp
  from addToPath_appends [OF assms(1,2) this assms(4,5), of dir] one
  show ?thesis by simp
qed

lemma zshUser_facts:
  "shellrcFor (SHELL zshUser) = Some ''.zshrc''"
  "Current zshUser = Inr ''/home/u''"
  "files home0 (Join [''/home/u'', ''.zshrc'']) = None"
  by code_simp+

text \<open>
  C7, as the specification states it, fails: with \<^verbatim>\<open>SHELL=/bin/zsh\<close> and no
  \<open>.zshrc\<close> in the home directory, \<^verbatim>\<open>addToPath\<close> prints that it could not open the
  file and changes nothing; no line is appended to any file.
\<close>

theorem missing_profile_counterexample:
  "shellrcFor (SHELL zshUser) = Some ''.zshrc''
   \<and> addToPath zshUser ''/home/u/.donut-utils'' home0 =
       println (FailedOpenShellrc ''no such file or directory'') home0
   \<and> files (addToPath zshUser ''/home/u/.donut-utils'' home0) = files home0"
  using zshUser_facts(1) addToPath_no_profile [OF zshUser_facts, of "''/home/u/.donut-utils''"]
  by (simp only: println_fields simp_thms)

text \<open>
  C7, amended. When \<^verbatim>\<open>SHELL\<close> selects a supported shell (\<open>bash\<close> before
  \<open>zsh\<close>), the current user is found, and the profile file (\<open>.bashrc\<close> or \<open>.zshrc\<close> in
  the home directory) exists and is opened and written without error, a run of
  \<^verbatim>\<open>addToPath\<close> appends exactly a line feed and \<open>export PATH=$PATH:\<close> with the
  directory to that file and changes no other file; a second run appends the same line
  again. When the profile file does not exist or cannot be opened, the run prints that
  and changes no file (the file is not created). With any other shell the run prints the
  instructions and the directory, and changes no file.
\<close>

theorem path_registration:
  "(shellrcFor (SHELL env) = Some rc \<and> Current env = Inr home
      \<and> files st (Join [home, rc]) = Some f \<and> OpenFile env (Join [home, rc]) = None
      \<and> WriteString env (Join [home, rc]) = None \<longrightarrow>
      files (addToPath env dir st) =
        (files st)(Join [home, rc] \<mapsto> f\<lparr>content := content f @ exportLine dir\<rparr>)
      \<and> stdout (addToPath env dir st) =
          stdout st @ [AddedToPath rc, UpdateSession, SourceCmd rc]
      \<and> files (addToPath env dir (addToPath env dir st)) =
          (files st)(Join [home, rc] \<mapsto>
             f\<lparr>content := content f @ exportLine dir @ exportLine dir\<rparr>))
   \<and> (shellrcFor (SHELL env) = Some rc \<and> Current env = Inr home
        \<and> files st (Join [home, rc]) = None \<longrightarrow>
       addToPath env dir st = println (FailedOpenShellrc ''no such file or directory'') st)
   \<and> (shellrcFor (SHELL env) = Some rc \<and> Current env = Inr home
        \<and> files st (Join [home, rc]) = Some f \<and> OpenFile env (Join [home, rc]) = Some e \<longrightarrow>
       addToPath env dir st = println (FailedOpenShellrc e) st)
   \<and> (shellrcFor (SHELL env) = None \<longrightarrow>
       addToPath env dir st = println (PathLine dir) (println UnsupportedShell st))
   \<and> (shellrcFor (SHELL env) = Some rc \<longrightarrow> rc = ''.bashrc'' \<or> rc = ''.zshrc'')
   \<and> exportLine dir = CHR 0x0A # ''export PATH=$PATH:'' @ dir"
proof (intro conjI impI)
  assume a: "shellrcFor (SHELL env) = Some rc \<and> Current env = Inr home
      \<and> files st (Join [home, rc]) = Some f \<and> OpenFile env (Join [home, rc]) = None
      \<and> WriteString env (Join [home, rc]) = None"
  then have h: "shellrcFor (SHELL env) = Some rc" "Current env = Inr home"
    "files st (Join [home, rc]) = Some f" "OpenFile env (Join [home, rc]) = None"
    "WriteString env (Join [home, rc]) = None"
    by blast+
  from addToPath_appends [OF h, of dir]
  show "files (addToPath env dir st) =
        (files st)(Join [home, rc] \<mapsto> f\<lparr>content := content f @ exportLine dir\<rparr>)"
    and "stdout (addToPath env dir st) =
          stdout st @ [AddedToPath rc, UpdateSession, SourceCmd rc]"
    by blast+
  show "files (addToPath env dir (addToPath env dir st)) =
          (files st)(Join [home, rc] \<mapsto>
             f\<lparr>content := content f @ exportLine dir @ exportLine dir\<rparr>)"
    by (rule addToPath_twice [OF h])
next
  assume "shellrcFor (SHELL env) = Some rc \<and> Current env = Inr home
        \<and> files st (Join [home, rc]) = None"
  then have h: "shellrcFor (SHELL env) = Some rc" "Current env = Inr home"
    "files st (Join [home, rc]) = None"
    by blast+
  show "addToPath env dir st = println (FailedOpenShellrc ''no such file or directory'') st"
    by (rule addToPath_no_profile [OF h])
next
  assume "shellrcFor (SHELL env) = Some rc \<and> Current env = Inr home
        \<and> files st (Join [home, rc]) = Some f \<and> OpenFile env (Join [home, rc]) = Some e"
  then have h: "shellrcFor (SHELL env) = Some rc" "Current env = Inr home"
    "files st (Join [home, rc]) = Some f" "OpenFile env (Join [home, rc]) = Some e"
    by blast+
  show "addToPath env dir st = println (FailedOpenShellrc e) st"
    by (rule addToPath_open_fails [OF h])
next
  assume "shellrcFor (SHELL env) = None"
  then show "addToPath env dir st = println (PathLine dir) (println UnsupportedShell st)"
    by (rule addToPath_unsupported)
next
  assume "shellrcFor (SHELL env) = Some rc"
  then show "rc = ''.bashrc'' \<or> rc = ''.zshrc''"
    by (rule shellrcFor_cases)
next
  show "exportLine dir = CHR 0x0A # ''export PATH=$PATH:'' @ dir"
    by (simp add: exportLine_def)
qed

lemma scenario_bashrc: "Join [''/home/u'', ''.bashrc''] = ''/home/u/.bashrc''"
  by code_simp

theorem path_registration_witness:
  "files (addToPath scenario ''/home/u/.donut-utils'' home0) ''/home/u/.bashrc'' =
     Some \<lparr>content = ''# rc'' @ exportLine ''/home/u/.donut-utils'', perm = 420\<rparr>
   \<and> files (addToPath scenario ''/home/u/.donut-utils''
              (addToPath scenario ''/home/u/.donut-utils'' home0)) ''/home/u/.bashrc'' =
     Some \<lparr>content = ''# rc'' @ exportLine ''/home/u/.donut-utils''
                        @ exportLine ''/home/u/.donut-utils'', perm = 420\<rparr>
   \<and> addToPath fishUser ''/home/u/.donut-utils'' home0 =
       println (PathLine ''/home/u/.donut-utils'') (println UnsupportedShell home0)
   \<and> addToPath zshUser ''/home/u/.donut-utils'' home0 =
       println (FailedOpenShellrc ''no such file or directory'') home0"
proof -
  have hb: "shellrcFor (SHELL scenario) = Some ''.bashrc'' \<and> Current scenario = Inr ''/home/u''
      \<and> files home0 (Join [''/home/u'', ''.bashrc'']) = Some \<lparr>content = ''# rc'', perm = 420\<rparr>
      \<and> OpenFile scenario (Join [''/home/u'', ''.bashrc'']) = None
      \<and> WriteString scenario (Join [''/home/u'', ''.bashrc'']) = None"
    by code_simp
  note wb = path_registration [where env = scenario and rc = "''.bashrc''"
      and home = "''/home/u''" and st = home0 and f = "\<lparr>content = ''# rc'', perm = 420\<rparr>"
      and dir = "''/home/u/.donut-utils''", THEN conjunct1, THEN mp, OF hb,
      unfolded scenario_bashrc]
  have once: "files (addToPath scenario ''/home/u/.donut-utils'' home0) ''/home/u/.bashrc'' =
     Some \<lparr>content = ''# rc'' @ exportLine ''/home/u/.donut-utils'', perm = 420\<rparr>"
    using wb [THEN conjunct1, THEN fun_cong, of "''/home/u/.bashrc''"] by simp
  have twice: "files (addToPath scenario ''/home/u/.donut-utils''
              (addToPath scenario ''/home/u/.donut-utils'' home0)) ''/home/u/.bashrc'' =
     Some \<lparr>content = ''# rc'' @ exportLine ''/home/u/.donut-utils''
                        @ exportLine ''/home/u/.donut-utils'', perm = 420\<rparr>"
    using wb [THEN conjunct2, THEN conjunct2, THEN fun_cong, of "''/home/u/.bashrc''"] by simp
  have hf: "shellrcFor (SHELL fishUser) = None"
    by code_simp
  note wf = path_registration [where env = fishUser and st = home0
      and dir = "''/home/u/.donut-utils''", THEN conjunct2, THEN conjunct2, THEN conjunct2,
      THEN conjunct1, THEN mp, OF hf]
  have hz: "shellrcFor (SHELL zshUser) = Some ''.zshrc'' \<and> Current zshUser = Inr ''/home/u''
      \<and> files home0 (Join [''/home/u'', ''.zshrc'']) = None"
    by code_simp
  note wz = path_registration [where env = zshUser and rc = "''.zshrc''"
      and home = "''/home/u''" and st = home0 and dir = "''/home/u/.donut-utils''",
      THEN conjunct2, THEN conjunct1, THEN mp, OF hz]
  from once twice wf wz show ?thesis by blast
qed

section \<open>The last step runs whatever the answer\<close>

lemma pathStep_windows:
  "GOOS env = ''windows'' \<Longrightarrow>
   pathStep env dp st =
     println WindowsRestart (println (PathLine dp) (println WindowsManual st))"
  by (simp add: pathStep_def)

lemma pathStep_other:
  "GOOS env \<noteq> ''windows'' \<Longrightarrow>
   pathStep env dp st =
     println SourceZsh (println SourceBash (println SourceHint
       (println RestartNotice (addToPath env dp st))))"
  by (simp add: pathStep_def)

lemma downloadPhase_nothing:
  "ToLower (MapLower env) (TrimSpace answer) \<noteq> ''yes'' \<or> apps = [] \<Longrightarrow>
   downloadPhase env dp apps answer st = st"
  by (auto simp: downloadPhase_def)

text \<open>
  C10. Once \<^verbatim>\<open>main\<close> has asked its question and read a line, it always goes on
  to its last step and ends at its last line: the state it ends in is that of the last
  step, run after the download step, with the deferred closes after it. When the answer
  is not \<open>yes\<close>, or nothing is offered, the download step changes nothing and the last
  step runs on the state at the question. On Windows the last step prints the three
  lines of the manual instructions; elsewhere it is \<^verbatim>\<open>addToPath\<close> on the download
  directory followed by the four closing lines.
\<close>

theorem path_step_always_runs:
  "(main_to_prompt env st0 = Inr (dp, apps, ds, st3) \<and> ReadString (Stdin env) = Inr answer \<longrightarrow>
      main env st0 =
        (Finished, run_deferred ds (pathStep env dp (downloadPhase env dp apps answer st3)))
      \<and> (ToLower (MapLower env) (TrimSpace answer) \<noteq> ''yes'' \<or> apps = [] \<longrightarrow>
            main env st0 = (Finished, run_deferred ds (pathStep env dp st3))))
   \<and> (GOOS env = ''windows'' \<longrightarrow>
        pathStep env dp st =
          println WindowsRestart (println (PathLine dp) (println WindowsManual st)))
   \<and> (GOOS env \<noteq> ''windows'' \<longrightarrow>
        pathStep env dp st =
          println SourceZsh (println SourceBash (println SourceHint
            (println RestartNotice (addToPath env dp st)))))"
proof (intro conjI impI)
  assume a: "main_to_prompt env st0 = Inr (dp, apps, ds, st3) \<and> ReadString (Stdin env) = Inr answer"
  then show m: "main env st0 =
        (Finished, run_deferred ds (pathStep env dp (downloadPhase env dp apps answer st3)))"
    by (intro main_after_prompt) simp_all
  assume "ToLower (MapLower env) (TrimSpace answer) \<noteq> ''yes'' \<or> apps = []"
  from downloadPhase_nothing [OF this] m
  show "main env st0 = (Finished, run_deferred ds (pathStep env dp st3))"
    by simp
next
  assume "GOOS env = ''windows''"
  then show "pathStep env dp st =
          println WindowsRestart (println (PathLine dp) (println WindowsManual st))"
    by (rule pathStep_windows)
next
  assume "GOOS env \<noteq> ''windows''"
  then show "pathStep env dp st =
          println SourceZsh (println SourceBash (println SourceHint
            (println RestartNotice (addToPath env dp st))))"
    by (rule pathStep_other)
qed

lemma windowsUser_prompt_isr: "\<not> isl (main_to_prompt windowsUser home0)"
  by code_simp

lemma windowsUser_answer: "ReadString (Stdin windowsUser) = Inr (''no'' @ [CHR 0x0A])"
  by code_simp

lemma windowsUser_apps: "fst (snd (projr (main_to_prompt windowsUser home0))) = []"
  by code_simp

lemma declining_last_step:
  "files (run_deferred (fst (snd (snd (projr (main_to_prompt declining home0)))))
            (pathStep declining (fst (projr (main_to_prompt declining home0)))
               (snd (snd (snd (projr (main_to_prompt declining home0))))))) ''/home/u/.bashrc''
     = Some \<lparr>content = ''# rc'' @ exportLine ''/home/u/.donut-utils'', perm = 420\<rparr>"
  by code_simp

lemma windowsUser_last_step:
  "stdout (run_deferred (fst (snd (snd (projr (main_to_prompt windowsUser home0)))))
            (pathStep windowsUser (fst (projr (main_to_prompt windowsUser home0)))
               (snd (snd (snd (projr (main_to_prompt windowsUser home0)))))))
     = [Banner, Intro, AvailableHeader, DownloadPrompt,
        WindowsManual, PathLine ''/home/u/.donut-utils'', WindowsRestart]"
  by code_simp

theorem path_step_always_runs_witness:
  "fst (main declining home0) = Finished
   \<and> files (snd (main declining home0)) ''/home/u/.bashrc''
       = Some \<lparr>content = ''# rc'' @ exportLine ''/home/u/.donut-utils'', perm = 420\<rparr>
   \<and> fst (main windowsUser home0) = Finished
   \<and> stdout (snd (main windowsUser home0))
       = [Banner, Intro, AvailableHeader, DownloadPrompt,
          WindowsManual, PathLine ''/home/u/.donut-utils'', WindowsRestart]"
proof -
  have hd: "main_to_prompt declining home0 =
        Inr (fst (projr (main_to_prompt declining home0)),
             fst (snd (projr (main_to_prompt declining home0))),
             fst (snd (snd (projr (main_to_prompt declining home0)))),
             snd (snd (snd (projr (main_to_prompt declining home0)))))
      \<and> ReadString (Stdin declining) = Inr (''no'' @ [CHR 0x0A])"
    using Inr_projr [OF declining_prompt_isr] declining_answer(1) by simp
  have hw: "main_to_prompt windowsUser home0 =
        Inr (fst (projr (main_to_prompt windowsUser home0)),
             fst (snd (projr (main_to_prompt windowsUser home0))),
             fst (snd (snd (projr (main_to_prompt windowsUser home0)))),
             snd (snd (snd (projr (main_to_prompt windowsUser home0)))))
      \<and> ReadString (Stdin windowsUser) = Inr (''no'' @ [CHR 0x0A])"
    using Inr_projr [OF windowsUser_prompt_isr] windowsUser_answer by simp
  note d = path_step_always_runs [where env = declining and ?st0.0 = home0
      and answer = "''no'' @ [CHR 0x0A]", THEN conjunct1, THEN mp, OF hd, THEN conjunct2,
      THEN mp, OF disjI1, OF declining_answer(2)]
  note w = path_step_always_runs [where env = windowsUser and ?st0.0 = home0
      and answer = "''no'' @ [CHR 0x0A]", THEN conjunct1, THEN mp, OF hw, THEN conjunct2,
      THEN mp, OF disjI2, OF windowsUser_apps]
  show ?thesis
    by (simp only: d w fst_conv snd_conv declining_last_step windowsUser_last_step simp_thms)
qed

end
